theory Spec2Isabelle
  imports Complex_Main "HOL-Library.Multiset"
begin

section \<open>Data model\<close>

text \<open>
  The on-chain module (\<^verbatim>\<open>core/onchain.py\<close>) and the session wrapper
  (\<^verbatim>\<open>core/bot.py\<close>) are embedded as state-passing functions. Everything the
  code obtains from outside (JSON-RPC answers, the random multiplier, the block explorer,
  the browser) is an oracle of the \<open>world\<close>, a function of the history of external
  interactions so far, so that two calls of the same request may answer differently.
  Every external interaction is appended to a trace of events.

  Python's floats are idealised as exact rationals; \<open>int(x)\<close> truncates towards zero.
\<close>

type_synonym address = string

datatype token_types = NATIVE | ERC20

text \<open>The immutable part of a \<^verbatim>\<open>Chain\<close> object. Its mutable field
  \<^verbatim>\<open>is_eip1559\<close> lives in the store \<open>is_eip1559\<close> of the state, keyed by the
  chain, so that a token and the client share the flag as they share the object.\<close>

record chain =
  chain_name :: string
  chain_id :: int
  native_token :: string
  multiplier :: rat

record token =
  symbol :: string
  token_address :: address
  token_chain :: chain
  token_decimals :: int
  type_token :: token_types

record amount =
  wei :: int
  amount_decimals :: int

datatype number = PyInt int | PyFloat rat

text \<open>The argument \<^verbatim>\<open>token: Optional[Token | str | ChecksumAddress]\<close> and the
  argument \<^verbatim>\<open>amount: Amount | int | float | None\<close>.\<close>

datatype token_arg = TokenNone | TokenStr address | TokenObj token

datatype amount_arg = AmountNone | AmountNum number | AmountObj amount

datatype spender_arg = SpenderStr address | SpenderRaw address

datatype value_error =
    TokenOnOtherChain       \<comment> \<open>the message of \<^verbatim>\<open>get_balance\<close>: token on another chain\<close>
  | NotEnoughNative         \<comment> \<open>the message of \<^verbatim>\<open>_validate_native_transfer_value\<close>\<close>

datatype error =
    ValueError value_error
  | AttributeError
  | IndexError
  | KeyError
  | TypeError
  | External string         \<comment> \<open>any exception raised by an external call\<close>

datatype calldata = Hex string | TransferCall address int | ApproveCall address int

text \<open>The transaction parameter dictionary: a key is present iff its field is \<open>Some\<close>.\<close>

record tx_params =
  gasPrice :: "int option"
  tx_type :: "string option"
  maxFeePerGas :: "int option"
  maxPriorityFeePerGas :: "int option"
  tx_from :: "address option"
  tx_nonce :: "int option"
  tx_chainId :: "int option"
  tx_value :: "int option"
  tx_to :: "address option"
  tx_data :: "calldata option"
  tx_gas :: "int option"

definition empty_tx :: tx_params where
  "empty_tx = \<lparr>gasPrice = None, tx_type = None, maxFeePerGas = None,
     maxPriorityFeePerGas = None, tx_from = None, tx_nonce = None, tx_chainId = None,
     tx_value = None, tx_to = None, tx_data = None, tx_gas = None\<rparr>"

text \<open>The answer of \<^verbatim>\<open>eth_feeHistory\<close>: a dictionary whose keys may be missing.\<close>

record fee_history =
  baseFeePerGas :: "int list option"
  reward :: "int list list option"
  other_keys :: bool

record approval_log =
  log_address :: address
  topics :: "string list"

datatype level = INFO | SUCCESS | WARNING | ERROR | CRITICAL

datatype contract_call =
    Decimals | Symbol | BalanceOf address | Allowance address address | GetL1Fee calldata

datatype event =
    EthFeeHistory nat string "nat list"
  | EthGasPrice
  | EthEstimateGas tx_params
  | EthGetTransactionCount address
  | EthGetBalance address
  | EthCall address contract_call
  | BuildTransaction address calldata
  | SignTransaction tx_params
  | SendRawTransaction tx_params
  | WaitForReceipt string
  | GetMultiplayer "(rat \<times> rat) option"
  | RandomSleep
  | EtherscanGetLogs
  | CloseBrowser
  | Log level

fun is_network :: "event \<Rightarrow> bool" where
  "is_network (GetMultiplayer _) = False"
| "is_network RandomSleep = False"
| "is_network CloseBrowser = False"
| "is_network (Log _) = False"
| "is_network (SignTransaction _) = False"
| "is_network _ = True"

fun is_submission :: "event \<Rightarrow> bool" where
  "is_submission (SignTransaction _) = True"
| "is_submission (SendRawTransaction _) = True"
| "is_submission _ = False"

fun is_send :: "event \<Rightarrow> bool" where
  "is_send (SendRawTransaction _) = True"
| "is_send _ = False"

fun is_fee_history :: "event \<Rightarrow> bool" where
  "is_fee_history (EthFeeHistory _ _ _) = True"
| "is_fee_history _ = False"

text \<open>The world: the oracles, and the parts of the repository that are not in the
  sources at hand (\<^verbatim>\<open>Amount\<close>, \<^verbatim>\<open>Token\<close>, \<^verbatim>\<open>utils\<close>,
  \<^verbatim>\<open>config\<close>), taken as parameters. \<open>to_checksum\<close> is the helper of
  \<^verbatim>\<open>utils\<close>, \<open>to_checksum_address\<close> the one of the web3 library; \<open>get_multiplayer\<close>
  is the random multiplier, drawn between the two bounds when they are given.\<close>

record world =
  ext_int :: "event list \<Rightarrow> event \<Rightarrow> string + int"
  ext_str :: "event list \<Rightarrow> event \<Rightarrow> string + string"
  ext_fee_history :: "event list \<Rightarrow> string + fee_history"
  ext_logs :: "event list \<Rightarrow> string + approval_log list"
  ext_unit :: "event list \<Rightarrow> event \<Rightarrow> string + unit"
  get_multiplayer :: "event list \<Rightarrow> (rat \<times> rat) option \<Rightarrow> rat"
  to_checksum :: "string \<Rightarrow> string + address"
  to_checksum_address :: "string \<Rightarrow> string + address"
  Amount_of_number :: "number \<Rightarrow> int \<Rightarrow> amount"
  Amount_bool :: "amount \<Rightarrow> bool"
  Amount_default_decimals :: int
  Token_type :: "address \<Rightarrow> token_types"
  etherscan_api_key :: string
  gas_price_limit :: int

text \<open>The state of an \<^verbatim>\<open>Onchain\<close> object and of the objects it shares.\<close>

record state =
  trace :: "event list"
  is_eip1559 :: "chain \<Rightarrow> bool option"
  self_chain :: chain
  account_address :: address
  NATIVE_TOKEN :: token

section \<open>Effects\<close>

type_synonym 'a io = "state \<Rightarrow> (error + 'a) \<times> state"

definition return :: "'a \<Rightarrow> 'a io" where
  "return x = (\<lambda>s. (Inr x, s))"

definition raise :: "error \<Rightarrow> 'a io" where
  "raise e = (\<lambda>s. (Inl e, s))"

definition bind :: "'a io \<Rightarrow> ('a \<Rightarrow> 'b io) \<Rightarrow> 'b io" where
  "bind m f = (\<lambda>s. case m s of (Inl e, s') \<Rightarrow> (Inl e, s') | (Inr x, s') \<Rightarrow> f x s')"

definition lift :: "error + 'a \<Rightarrow> 'a io" where
  "lift r = (case r of Inl e \<Rightarrow> raise e | Inr x \<Rightarrow> return x)"

text \<open>An external call: the oracle answers from the history with a value or with the
  message of the exception it raises; the call is recorded.\<close>

definition external :: "string + 'a \<Rightarrow> error + 'a" where
  "external r = (case r of Inl msg \<Rightarrow> Inl (External msg) | Inr x \<Rightarrow> Inr x)"

definition perform :: "event \<Rightarrow> (event list \<Rightarrow> event \<Rightarrow> string + 'a) \<Rightarrow> 'a io" where
  "perform ev oracle = (\<lambda>s. (external (oracle (trace s) ev), s\<lparr>trace := trace s @ [ev]\<rparr>))"

definition logger :: "level \<Rightarrow> unit io" where
  "logger l = (\<lambda>s. (Inr (), s\<lparr>trace := trace s @ [Log l]\<rparr>))"

text \<open>The events a computation has added to the trace.\<close>

definition new_events :: "state \<Rightarrow> state \<Rightarrow> event list" where
  "new_events s s' = drop (length (trace s)) (trace s')"

text \<open>A computation that extends the trace, and only by events of one kind.\<close>

definition emits :: "(event \<Rightarrow> bool) \<Rightarrow> 'a io \<Rightarrow> bool" where
  "emits P m = (\<forall>s. trace (snd (m s)) = trace s @ new_events s (snd (m s))
     \<and> list_all P (new_events s (snd (m s))))"

definition quiet :: "event \<Rightarrow> bool" where
  "quiet e = (\<not> is_submission e)"

text \<open>A computation that never raises a \<^verbatim>\<open>ValueError\<close>, and one that has
  only added quiet events whenever it raises one.\<close>

definition no_value_error :: "'a io \<Rightarrow> bool" where
  "no_value_error m = (\<forall>s ve. fst (m s) \<noteq> Inl (ValueError ve))"

definition fails_quietly :: "'a io \<Rightarrow> bool" where
  "fails_quietly m = (\<forall>s ve. fst (m s) = Inl (ValueError ve) \<longrightarrow>
     trace (snd (m s)) = trace s @ new_events s (snd (m s))
     \<and> list_all quiet (new_events s (snd (m s))))"

text \<open>A computation that extends the trace and submits at most one transaction.\<close>

definition at_most_one_send :: "'a io \<Rightarrow> bool" where
  "at_most_one_send m = (\<forall>s. trace (snd (m s)) = trace s @ new_events s (snd (m s))
     \<and> length (filter is_send (new_events s (snd (m s)))) \<le> 1)"

definition py_int :: "rat \<Rightarrow> int" where
  "py_int x = (if 0 \<le> x then \<lfloor>x\<rfloor> else \<lceil>x\<rceil>)"

definition Amount_wei :: "int \<Rightarrow> int \<Rightarrow> amount" where
  "Amount_wei v d = \<lparr>wei = v, amount_decimals = d\<rparr>"

section \<open>Fees\<close>

definition multiply :: "world \<Rightarrow> int \<Rightarrow> rat \<Rightarrow> rat \<Rightarrow> int io" where
  "multiply w v min_mult max_mult =
     bind (perform (GetMultiplayer (Some (min_mult, max_mult)))
             (\<lambda>h ev. Inr (get_multiplayer w h (Some (min_mult, max_mult)))))
       (\<lambda>r s. (Inr (py_int (of_int v * r * multiplier (self_chain s))), s))"

definition fee_history_truthy :: "fee_history \<Rightarrow> bool" where
  "fee_history_truthy fh = (baseFeePerGas fh \<noteq> None \<or> reward fh \<noteq> None \<or> other_keys fh)"

definition any_nonzero :: "int list \<Rightarrow> bool" where
  "any_nonzero xs = list_ex (\<lambda>x. x \<noteq> 0) xs"

definition base_fees :: "fee_history \<Rightarrow> int list" where
  "base_fees fh = (case baseFeePerGas fh of None \<Rightarrow> [0] | Some xs \<Rightarrow> xs)"

text \<open>\<^verbatim>\<open>[fee[0] for fee in rewards if fee[0] != 0] or [0]\<close>; an empty sample raises.\<close>

fun first_rewards :: "int list list \<Rightarrow> error + int list" where
  "first_rewards [] = Inr []"
| "first_rewards ([] # _) = Inl IndexError"
| "first_rewards ((x # _) # rest) =
     (case first_rewards rest of
        Inl e \<Rightarrow> Inl e
      | Inr xs \<Rightarrow> Inr (if x \<noteq> 0 then x # xs else xs))"

definition priority_fees :: "fee_history \<Rightarrow> error + int list" where
  "priority_fees fh =
     (case first_rewards (case reward fh of None \<Rightarrow> [[0]] | Some rs \<Rightarrow> rs) of
        Inl e \<Rightarrow> Inl e
      | Inr xs \<Rightarrow> Inr (if xs = [] then [0] else xs))"

definition median_of :: "int list \<Rightarrow> int" where
  "median_of fees = (let median_index = length fees div 2 in sort fees ! median_index)"

definition median_priority_fee :: "fee_history \<Rightarrow> error + int" where
  "median_priority_fee fh =
     (case priority_fees fh of Inl e \<Rightarrow> Inl e | Inr fees \<Rightarrow> Inr (median_of fees))"

definition query_fee_history :: "world \<Rightarrow> fee_history io" where
  "query_fee_history w =
     perform (EthFeeHistory 20 ''latest'' [40]) (\<lambda>h ev. ext_fee_history w h)"

definition get_fee :: "world \<Rightarrow> tx_params option \<Rightarrow> tx_params io" where
  "get_fee w tx_opt =
     (let tx = (case tx_opt of None \<Rightarrow> empty_tx | Some t \<Rightarrow> t) in
      bind (\<lambda>s. if is_eip1559 s (self_chain s) = None
                then bind (query_fee_history w)
                       (\<lambda>fh s'. (Inr (Some fh),
                          s'\<lparr>is_eip1559 := (is_eip1559 s')
                               (self_chain s' := Some (any_nonzero (base_fees fh)))\<rparr>)) s
                else (Inr None, s))
        (\<lambda>fetched s.
           if is_eip1559 s (self_chain s) = Some False
           then bind (perform EthGasPrice (ext_int w))
                  (\<lambda>gp. bind (multiply w gp (103 / 100) (11 / 10))
                     (\<lambda>p. return (tx\<lparr>gasPrice := Some p\<rparr>))) s
           else bind (case fetched of
                        Some fh \<Rightarrow> if fee_history_truthy fh then return fh
                                   else query_fee_history w
                      | None \<Rightarrow> query_fee_history w)
                  (\<lambda>fh. if base_fees fh = [] then raise IndexError
                     else let base_fee = last (base_fees fh) in
                       bind (lift (median_priority_fee fh))
                         (\<lambda>median. bind (multiply w median (103 / 100) (11 / 10))
                            (\<lambda>priority_fee.
                               bind (multiply w (base_fee + priority_fee) (103 / 100) (11 / 10))
                                 (\<lambda>max_fee. return (tx\<lparr>tx_type := Some ''0x2'',
                                      maxFeePerGas := Some max_fee,
                                      maxPriorityFeePerGas := Some priority_fee\<rparr>))))) s))"

section \<open>Transactions\<close>

definition get :: "(state \<Rightarrow> 'a) \<Rightarrow> 'a io" where
  "get f = (\<lambda>s. (Inr (f s), s))"

definition oracle_address :: address where
  "oracle_address = ''0x420000000000000000000000000000000000000F''"

text \<open>\<^verbatim>\<open>_get_l1_fee\<close> writes the key \<^verbatim>\<open>data\<close> into the dictionary it is given:
  the updated dictionary is returned with the fee.\<close>

definition get_l1_fee :: "world \<Rightarrow> tx_params \<Rightarrow> (amount \<times> tx_params) io" where
  "get_l1_fee w tx =
     (\<lambda>s. if chain_name (self_chain s) \<noteq> ''op''
          then (Inr (Amount_wei 0 (Amount_default_decimals w), tx), s)
          else (let data = (case tx_data tx of None \<Rightarrow> Hex ''0x'' | Some d \<Rightarrow> d);
                    tx' = tx\<lparr>tx_data := Some data\<rparr>
                in bind (perform (EthCall oracle_address (GetL1Fee data)) (ext_int w))
                     (\<lambda>l1_fee. return (Amount_wei l1_fee (Amount_default_decimals w), tx'))) s)"

definition prepare_tx :: "world \<Rightarrow> amount option \<Rightarrow> address option \<Rightarrow> tx_params io" where
  "prepare_tx w val to_address =
     bind (get_fee w None)
       (\<lambda>tx. bind (get account_address)
          (\<lambda>a. bind (perform (EthGetTransactionCount a) (ext_int w))
             (\<lambda>n. bind (get self_chain)
                (\<lambda>c. let tx1 = tx\<lparr>tx_from := Some a, tx_nonce := Some n,
                                   tx_chainId := Some (chain_id c)\<rparr>;
                          tx2 = (case val of
                                   Some v \<Rightarrow> if Amount_bool w v
                                             then tx1\<lparr>tx_value := Some (wei v)\<rparr> else tx1
                                 | None \<Rightarrow> tx1);
                          tx3 = (case to_address of
                                   Some t \<Rightarrow> if t \<noteq> [] then tx2\<lparr>tx_to := Some t\<rparr> else tx2
                                 | None \<Rightarrow> tx2)
                      in return tx3))))"

definition estimate_gas :: "world \<Rightarrow> tx_params \<Rightarrow> tx_params io" where
  "estimate_gas w tx =
     bind (perform (EthEstimateGas tx) (ext_int w))
       (\<lambda>g. bind (perform (GetMultiplayer None) (\<lambda>h ev. Inr (get_multiplayer w h None)))
          (\<lambda>r. return (tx\<lparr>tx_gas := Some (py_int (of_int g * r))\<rparr>)))"

definition sign_and_send :: "world \<Rightarrow> tx_params \<Rightarrow> string io" where
  "sign_and_send w tx =
     bind (perform (SignTransaction tx) (ext_unit w))
       (\<lambda>_. bind (perform (SendRawTransaction tx) (ext_str w))
          (\<lambda>tx_hash. perform (WaitForReceipt tx_hash) (ext_str w)))"

text \<open>\<^verbatim>\<open>contract.functions.f(...).build_transaction(tx_params)\<close>: the library may
  fail; of what it fills in, the destination and the call data are modelled.\<close>

definition build_transaction :: "world \<Rightarrow> address \<Rightarrow> calldata \<Rightarrow> tx_params \<Rightarrow> tx_params io" where
  "build_transaction w contract call tx =
     bind (perform (BuildTransaction contract call) (ext_unit w))
       (\<lambda>_. return (tx\<lparr>tx_to := Some contract, tx_data := Some call\<rparr>))"

section \<open>Tokens and balances\<close>

definition Token :: "world \<Rightarrow> string \<Rightarrow> address \<Rightarrow> chain \<Rightarrow> int \<Rightarrow> token" where
  "Token w sy a c d = \<lparr>symbol = sy, token_address = a, token_chain = c,
     token_decimals = d, type_token = Token_type w a\<rparr>"

definition get_token_params :: "world \<Rightarrow> address \<Rightarrow> (string \<times> int) io" where
  "get_token_params w token_addr =
     bind (lift (external (to_checksum w token_addr)))
       (\<lambda>a. bind (get NATIVE_TOKEN)
          (\<lambda>nt. if a = token_address nt
             then bind (get self_chain) (\<lambda>c. return (native_token c, token_decimals nt))
             else bind (perform (EthCall a Decimals) (ext_int w))
                    (\<lambda>d. bind (perform (EthCall a Symbol) (ext_str w))
                       (\<lambda>sy. return (sy, d)))))"

text \<open>\<^verbatim>\<open>if isinstance(token, str): ... token = Token(symbol, token, self.chain, decimals)\<close>;
  an attribute read on \<^verbatim>\<open>None\<close> raises.\<close>

definition resolve_token :: "world \<Rightarrow> token_arg \<Rightarrow> token io" where
  "resolve_token w tok =
     (case tok of
        TokenStr a \<Rightarrow> bind (get_token_params w a)
                        (\<lambda>(sy, d). bind (get self_chain) (\<lambda>c. return (Token w sy a c d)))
      | TokenObj t \<Rightarrow> return t
      | TokenNone \<Rightarrow> raise AttributeError)"

definition get_balance :: "world \<Rightarrow> token_arg \<Rightarrow> address option \<Rightarrow> amount io" where
  "get_balance w token_in address_in =
     bind (case token_in of
             TokenNone \<Rightarrow> (\<lambda>s. let t = (NATIVE_TOKEN s)\<lparr>token_chain := self_chain s\<rparr>
                                in (Inr (TokenObj t), s\<lparr>NATIVE_TOKEN := t\<rparr>))
           | _ \<Rightarrow> return token_in)
       (\<lambda>tok. bind (get account_address)
          (\<lambda>acc. let a0 = (case address_in of
                              None \<Rightarrow> acc
                            | Some a \<Rightarrow> if a = [] then acc else a)
             in bind (lift (external (to_checksum w a0)))
                  (\<lambda>addr. bind (resolve_token w tok)
                     (\<lambda>t. bind (get self_chain)
                        (\<lambda>c. if token_chain t \<noteq> c
                           then bind (logger ERROR) (\<lambda>_. raise (ValueError TokenOnOtherChain))
                           else if type_token t = NATIVE
                           then bind (perform (EthGetBalance addr) (ext_int w))
                                  (\<lambda>b. return (Amount_wei b (Amount_default_decimals w)))
                           else bind (perform (EthCall (token_address t) (BalanceOf addr)) (ext_int w))
                                  (\<lambda>b. return (Amount_wei b (token_decimals t))))))))"

section \<open>Transfers\<close>

definition probe_tx :: "address \<Rightarrow> tx_params" where
  "probe_tx a = empty_tx\<lparr>tx_from := Some a, tx_to := Some a, tx_value := Some 1\<rparr>"

definition validate_native_transfer_value :: "world \<Rightarrow> tx_params \<Rightarrow> tx_params io" where
  "validate_native_transfer_value w tx =
     (case tx_value tx of
        None \<Rightarrow> raise KeyError
      | Some amount_wei \<Rightarrow>
          bind (get_l1_fee w tx)
            (\<lambda>(l1_fee, tx1). bind (get account_address)
               (\<lambda>a. bind (perform (EthEstimateGas (probe_tx a)) (ext_int w))
                  (\<lambda>gues_gas.
                     case (case maxFeePerGas tx1 of Some p \<Rightarrow> Some p | None \<Rightarrow> gasPrice tx1) of
                       None \<Rightarrow> raise TypeError
                     | Some gues_gas_price \<Rightarrow>
                         bind (multiply w (wei l1_fee + gues_gas * gues_gas_price) (11 / 10) (12 / 10))
                           (\<lambda>fee_spend. bind (get_balance w TokenNone None)
                              (\<lambda>balance.
                                 if wei balance - fee_spend - amount_wei \<ge> 0 then return tx1
                                 else case tx_to tx1 of
                                   None \<Rightarrow> raise KeyError
                                 | Some _ \<Rightarrow>
                                     bind (logger WARNING)
                                       (\<lambda>_. bind (multiply w fee_spend (11 / 10) (12 / 10))
                                          (\<lambda>m. let tx2 = tx1\<lparr>tx_value := Some (wei balance - m)\<rparr>
                                             in if wei balance - m > 0 then return tx2
                                                else bind (logger ERROR)
                                                  (\<lambda>_. raise (ValueError NotEnoughNative))))))))))"

definition send_token :: "world \<Rightarrow> string \<Rightarrow> amount_arg \<Rightarrow> token_arg \<Rightarrow> string io" where
  "send_token w to_address amount_in token_in =
     bind (case token_in of
             TokenNone \<Rightarrow> (\<lambda>s. let t = (NATIVE_TOKEN s)\<lparr>token_chain := self_chain s,
                                          symbol := native_token (self_chain s)\<rparr>
                                in (Inr (TokenObj t), s\<lparr>NATIVE_TOKEN := t\<rparr>))
           | _ \<Rightarrow> return token_in)
       (\<lambda>tok. bind (case amount_in of
                      AmountNone \<Rightarrow>
                        bind (get_balance w tok None)
                          (\<lambda>b. case tok of
                                  TokenObj t \<Rightarrow> return (Inr (Amount_wei (wei b) (token_decimals t)))
                                | _ \<Rightarrow> raise AttributeError)
                    | AmountNum n \<Rightarrow> return (Inl n)
                    | AmountObj a \<Rightarrow> return (Inr a))
          (\<lambda>amt. bind (lift (external (to_checksum w to_address)))
             (\<lambda>to_addr. bind (resolve_token w tok)
                (\<lambda>t. let amount0 = (case amt of
                                      Inl n \<Rightarrow> Amount_of_number w n (token_decimals t)
                                    | Inr a \<Rightarrow> a)
                   in bind (if type_token t = NATIVE
                            then bind (prepare_tx w (Some amount0) (Some to_addr))
                                   (\<lambda>tx. bind (validate_native_transfer_value w tx)
                                      (\<lambda>tx'. case tx_value tx' of
                                                None \<Rightarrow> raise KeyError
                                              | Some v \<Rightarrow> return (tx')))
                            else bind (get_balance w (TokenObj t) None)
                                   (\<lambda>balance.
                                      let amount1 = (if wei balance < wei amount0
                                                     then balance else amount0)
                                      in bind (prepare_tx w None None)
                                           (build_transaction w (token_address t)
                                              (TransferCall to_addr (wei amount1)))))
                        (\<lambda>tx. bind (estimate_gas w tx)
                           (\<lambda>tx'. bind (sign_and_send w tx')
                              (\<lambda>tx_hash. bind (logger INFO) (\<lambda>_. return tx_hash))))))))"

section \<open>Approvals\<close>

definition spender_address :: "spender_arg \<Rightarrow> address" where
  "spender_address sp = (case sp of SpenderStr a \<Rightarrow> a | SpenderRaw a \<Rightarrow> a)"

definition get_allowance :: "world \<Rightarrow> token_arg \<Rightarrow> spender_arg \<Rightarrow> amount io" where
  "get_allowance w token_in spender =
     (case token_in of
        TokenNone \<Rightarrow> return (Amount_wei 0 (Amount_default_decimals w))
      | TokenStr _ \<Rightarrow> raise AttributeError
      | TokenObj t \<Rightarrow>
          if type_token t = NATIVE then return (Amount_wei 0 (Amount_default_decimals w))
          else bind (lift (external (to_checksum_address w (spender_address spender))))
                 (\<lambda>sp. bind (get account_address)
                    (\<lambda>a. bind (perform (EthCall (token_address t) (Allowance a sp)) (ext_int w))
                       (\<lambda>allowance. return (Amount_wei allowance (token_decimals t))))))"

definition approve :: "world \<Rightarrow> token_arg \<Rightarrow> amount_arg \<Rightarrow> spender_arg \<Rightarrow> unit io" where
  "approve w token_in amount_in spender =
     (case token_in of
        TokenNone \<Rightarrow> return ()
      | TokenStr _ \<Rightarrow> raise AttributeError
      | TokenObj t \<Rightarrow>
          if type_token t = NATIVE then return ()
          else bind (get_allowance w (TokenObj t) spender)
                 (\<lambda>allowed.
                    case (case amount_in of
                            AmountNum n \<Rightarrow> Some (Amount_of_number w n (token_decimals t))
                          | AmountObj a \<Rightarrow> Some a
                          | AmountNone \<Rightarrow> None) of
                      None \<Rightarrow> raise AttributeError
                    | Some amt \<Rightarrow>
                        if wei amt = 0 \<and> wei allowed = 0 then return ()
                        else if wei amt \<noteq> 0 \<and> wei allowed \<ge> wei amt then return ()
                        else bind (prepare_tx w None None)
                               (\<lambda>tx. bind (get_fee w (Some tx))
                                  (\<lambda>tx1. bind (build_transaction w (token_address t)
                                                (ApproveCall (spender_address spender) (wei amt)) tx1)
                                     (\<lambda>tx2. bind (estimate_gas w tx2)
                                        (\<lambda>tx3. bind (sign_and_send w tx3)
                                           (\<lambda>_. logger INFO)))))))"

definition get_gas_price :: "world \<Rightarrow> bool \<Rightarrow> number io" where
  "get_gas_price w gwei =
     bind (perform EthGasPrice (ext_int w))
       (\<lambda>gas_price. if gwei then return (PyFloat (of_int gas_price / 10 ^ 9))
                     else return (PyInt gas_price))"

text \<open>\<^verbatim>\<open>get_gas_price() > gas_limit\<close>: Python compares a float or an int with an int.\<close>

definition number_value :: "number \<Rightarrow> rat" where
  "number_value n = (case n of PyInt i \<Rightarrow> of_int i | PyFloat x \<Rightarrow> x)"

text \<open>\<^verbatim>\<open>gas_price_wait\<close> polls without a bound; the model polls at most \<open>fuel\<close>
  times and answers \<open>None\<close> when the price is still above the limit then.\<close>

fun gas_price_wait :: "world \<Rightarrow> nat \<Rightarrow> int option \<Rightarrow> unit option io" where
  "gas_price_wait w 0 gas_limit = return None"
| "gas_price_wait w (Suc fuel) gas_limit =
     (let limit = (case gas_limit of
                     None \<Rightarrow> gas_price_limit w
                   | Some l \<Rightarrow> if l = 0 then gas_price_limit w else l)
      in bind (get_gas_price w True)
           (\<lambda>p. if number_value p > of_int limit
              then bind (perform RandomSleep (ext_unit w))
                     (\<lambda>_. gas_price_wait w fuel (Some limit))
              else return (Some ())))"

section \<open>Bulk revocation\<close>

definition get_approval_logs :: "world \<Rightarrow> approval_log list io" where
  "get_approval_logs w = perform EtherscanGetLogs (\<lambda>h ev. ext_logs w h)"

text \<open>The pairs of the logs without duplicates. A Python set has no specified iteration
  order; the model iterates in the order of first occurrence.\<close>

fun approved_pairs :: "approval_log list \<Rightarrow> (address \<times> address) list \<Rightarrow>
    error + (address \<times> address) list" where
  "approved_pairs [] approved = Inr approved"
| "approved_pairs (l # logs) approved =
     (if length (topics l) < 3 then Inl IndexError
      else let p = (log_address l, ''0x'' @ drop 26 (topics l ! 2))
           in approved_pairs logs (if p \<in> set approved then approved else approved @ [p]))"

text \<open>The body of the loop \<^verbatim>\<open>for token_address, spender_address in approved\<close>, with
  the cache of tokens it reads and writes.\<close>

definition revoke_one :: "world \<Rightarrow> address \<times> address \<Rightarrow> (address \<rightharpoonup> token) \<Rightarrow>
    (address \<rightharpoonup> token) io" where
  "revoke_one w pair tokens_cache =
     (case pair of (token_addr, spender_addr) \<Rightarrow>
        bind (case tokens_cache token_addr of
                Some t \<Rightarrow> return (t, tokens_cache)
              | None \<Rightarrow>
                  bind (get_token_params w token_addr)
                    (\<lambda>(sy, d). bind (get self_chain)
                       (\<lambda>c. let t = Token w sy token_addr c d
                          in return (t, tokens_cache(token_addr \<mapsto> t)))))
          (\<lambda>(t, cache'). bind (approve w (TokenObj t) (AmountNum (PyInt 0)) (SpenderStr spender_addr))
             (\<lambda>_. return cache')))"

fun revoke_each :: "world \<Rightarrow> (address \<times> address) list \<Rightarrow> (address \<rightharpoonup> token) \<Rightarrow>
    (address \<rightharpoonup> token) io" where
  "revoke_each w [] tokens_cache = return tokens_cache"
| "revoke_each w (pair # rest) tokens_cache =
     bind (revoke_one w pair tokens_cache) (revoke_each w rest)"

definition remove_approves :: "world \<Rightarrow> unit io" where
  "remove_approves w =
     (if etherscan_api_key w = [] then logger ERROR
      else bind (get_approval_logs w)
             (\<lambda>logs. if logs = [] then logger INFO
                else bind (lift (approved_pairs logs []))
                       (\<lambda>approved. bind (revoke_each w approved Map.empty)
                          (\<lambda>_. return ()))))"

section \<open>The session wrapper\<close>

text \<open>What \<^verbatim>\<open>Bot.__exit__\<close> reads of an exception: whether its class is a subclass
  of \<^verbatim>\<open>TimeoutError\<close>, and its string.\<close>

record py_exception =
  is_timeout :: bool
  exc_str :: string

fun contains :: "string \<Rightarrow> string \<Rightarrow> bool" where
  "contains sub [] = (sub = [])"
| "contains sub (c # cs) = (take (length sub) (c # cs) = sub \<or> contains sub cs)"

definition Bot_exit :: "world \<Rightarrow> py_exception option \<Rightarrow> bool io" where
  "Bot_exit w exc =
     bind (perform CloseBrowser (ext_unit w))
       (\<lambda>_. bind (case exc of
                    None \<Rightarrow> logger SUCCESS
                  | Some e \<Rightarrow>
                      if is_timeout e then logger ERROR
                      else if contains ''object has no attribute: page'' (exc_str e)
                      then logger ERROR
                      else logger CRITICAL)
          (\<lambda>_. return True))"

datatype outcome = Completed | Propagated py_exception | ExitRaised error

text \<open>Python's \<^verbatim>\<open>with Bot(account) as bot: body\<close>: the body runs, then
  \<^verbatim>\<open>__exit__\<close> is called with the exception of the body, if any; the exception
  propagates unless \<^verbatim>\<open>__exit__\<close> returns a true value.\<close>

definition with_Bot :: "world \<Rightarrow> (state \<Rightarrow> (py_exception + unit) \<times> state) \<Rightarrow>
    state \<Rightarrow> outcome \<times> state" where
  "with_Bot w body s =
     (case body s of
        (Inr _, s1) \<Rightarrow>
          (case Bot_exit w None s1 of
             (Inl e, s2) \<Rightarrow> (ExitRaised e, s2)
           | (Inr _, s2) \<Rightarrow> (Completed, s2))
      | (Inl exc, s1) \<Rightarrow>
          (case Bot_exit w (Some exc) s1 of
             (Inl e, s2) \<Rightarrow> (ExitRaised e, s2)
           | (Inr suppress, s2) \<Rightarrow>
               if suppress then (Completed, s2) else (Propagated exc, s2)))"

text \<open>The level at which \<^verbatim>\<open>__exit__\<close> reports the end of the session.\<close>

definition exit_level :: "py_exception option \<Rightarrow> level" where
  "exit_level exc =
     (case exc of
        None \<Rightarrow> SUCCESS
      | Some e \<Rightarrow> if is_timeout e then ERROR
                  else if contains ''object has no attribute: page'' (exc_str e) then ERROR
                  else CRITICAL)"

section \<open>Concrete worlds\<close>

text \<open>A world whose oracles answer with constants, for evaluating the definitions. In it
  \<^verbatim>\<open>Amount(x, decimals=d)\<close> scales \<open>x\<close> by \<open>10 ^ d\<close>, every amount is true, and
  a token is native iff it has the native address.\<close>

definition chain0 :: chain where
  "chain0 = \<lparr>chain_name = ''ethereum'', chain_id = 1, native_token = ''ETH'', multiplier = 1\<rparr>"

definition native0 :: token where
  "native0 = \<lparr>symbol = ''ETH'', token_address = ''0xEeeeeEeeeEeEeeEeEeEeeEEEeeeeEeeeeeeeEEeE'',
     token_chain = chain0, token_decimals = 18, type_token = NATIVE\<rparr>"

definition fee_history0 :: fee_history where
  "fee_history0 = \<lparr>baseFeePerGas = Some [7, 9], reward = Some [[2], [4], [6], [8]],
     other_keys = True\<rparr>"

definition world0 :: world where
  "world0 = \<lparr>ext_int = (\<lambda>h ev. Inr 10), ext_str = (\<lambda>h ev. Inr ''0xhash''),
     ext_fee_history = (\<lambda>h. Inr fee_history0), ext_logs = (\<lambda>h. Inr []),
     ext_unit = (\<lambda>h ev. Inr ()), get_multiplayer = (\<lambda>h b. 11 / 10),
     to_checksum = Inr, to_checksum_address = Inr,
     Amount_of_number = (\<lambda>n d. Amount_wei (case n of PyInt i \<Rightarrow> i * 10 ^ nat d
                                               | PyFloat x \<Rightarrow> py_int (x * 10 ^ nat d)) d),
     Amount_bool = (\<lambda>a. True), Amount_default_decimals = 18,
     Token_type = (\<lambda>a. if a = token_address native0 then NATIVE else ERC20),
     etherscan_api_key = ''key'', gas_price_limit = 30\<rparr>"

definition state0 :: "bool option \<Rightarrow> state" where
  "state0 flag = \<lparr>trace = [], is_eip1559 = (\<lambda>c. flag), self_chain = chain0,
     account_address = ''0xA11ce'', NATIVE_TOKEN = native0\<rparr>"

text \<open>A wallet of \<open>b\<close> wei, a probe transfer that takes one unit of gas, every other
  number 9; the multiplier drawn is \<open>10 / 9\<close> until a warning is logged and \<open>6 / 5\<close>
  after.\<close>

definition wallet_world :: "int \<Rightarrow> world" where
  "wallet_world b = world0\<lparr>
     ext_int := (\<lambda>h ev. case ev of EthGetBalance _ \<Rightarrow> Inr b | EthEstimateGas _ \<Rightarrow> Inr 1
                          | _ \<Rightarrow> Inr 9),
     get_multiplayer := (\<lambda>h b. if Log WARNING \<in> set h then 6 / 5 else 10 / 9)\<rparr>"

definition after_probe :: state where
  "after_probe = (state0 (Some False))\<lparr>trace := [EthEstimateGas (probe_tx ''0xA11ce''),
     GetMultiplayer (Some (11 / 10, 12 / 10))]\<rparr>"

definition after_balance :: state where
  "after_balance = (state0 (Some False))\<lparr>trace := [EthEstimateGas (probe_tx ''0xA11ce''),
     GetMultiplayer (Some (11 / 10, 12 / 10)), EthGetBalance ''0xA11ce'']\<rparr>"

definition transfer_tx :: "int \<Rightarrow> int \<Rightarrow> tx_params" where
  "transfer_tx price v = empty_tx\<lparr>gasPrice := Some price, tx_from := Some ''0xA11ce'',
     tx_value := Some v, tx_to := Some ''0xB0b''\<rparr>"

text \<open>A second chain, a token on each chain, and a world in which the allowance of every
  spender is \<open>a\<close> and every other number is 10.\<close>

definition chain1 :: chain where
  "chain1 = \<lparr>chain_name = ''arbitrum_one'', chain_id = 42161, native_token = ''ETH'',
     multiplier = 1\<rparr>"

definition usdt0 :: token where
  "usdt0 = \<lparr>symbol = ''USDT'', token_address = ''0xdAC17F958D2ee523a2206206994597C13D831ec7'',
     token_chain = chain0, token_decimals = 6, type_token = ERC20\<rparr>"

definition usdt1 :: token where
  "usdt1 = \<lparr>symbol = ''USDT'', token_address = ''0xFd086bC7CD5C481DCC9C85ebE478A1C0b69FCbb9'',
     token_chain = chain1, token_decimals = 6, type_token = ERC20\<rparr>"

definition allowance_world :: "int \<Rightarrow> world" where
  "allowance_world a = world0\<lparr>
     ext_int := (\<lambda>h ev. case ev of EthCall _ (Allowance _ _) \<Rightarrow> Inr a | _ \<Rightarrow> Inr 10)\<rparr>"

text \<open>Two approval logs, of the tokens \<open>0xAAAA\<close> and \<open>0xBBBB\<close> for one spender, and a
  world in which the explorer returns the given logs, every allowance is 50 and reading the
  allowance of \<open>0xAAAA\<close> fails.\<close>

definition spender_topic :: string where
  "spender_topic = ''0x0000000000000000000000005555555555555555555555555555555555555555''"

definition log_A :: approval_log where
  "log_A = \<lparr>log_address = ''0xAAAA'', topics = [''0xTopic0'', ''0xOwner'', spender_topic]\<rparr>"

definition log_B :: approval_log where
  "log_B = \<lparr>log_address = ''0xBBBB'', topics = [''0xTopic0'', ''0xOwner'', spender_topic]\<rparr>"

definition revoke_world :: "approval_log list \<Rightarrow> world" where
  "revoke_world logs = world0\<lparr>
     ext_logs := (\<lambda>h. Inr logs),
     ext_int := (\<lambda>h ev. case ev of
                    EthCall a (Allowance _ _) \<Rightarrow>
                      if a = ''0xAAAA'' then Inl ''execution reverted'' else Inr 50
                  | _ \<Rightarrow> Inr 10)\<rparr>"

text \<open>The transaction that revokes the approval of \<open>0xBBBB\<close>, before its gas limit is
  set, and the state in which the loop of the revocations starts.\<close>

definition revoke_tx :: tx_params where
  "revoke_tx = empty_tx\<lparr>gasPrice := Some 11, tx_from := Some ''0xA11ce'',
     tx_nonce := Some 10, tx_chainId := Some 1, tx_to := Some ''0xBBBB'',
     tx_data := Some (ApproveCall ''0x5555555555555555555555555555555555555555'' 0)\<rparr>"

definition after_logs :: state where
  "after_logs = (state0 (Some False))\<lparr>trace := [EtherscanGetLogs]\<rparr>"

section \<open>Running the effects\<close>

lemmas fixtures = chain0_def native0_def fee_history0_def world0_def state0_def


lemma return_run [simp]: "return x s = (Inr x, s)"
  by (simp add: return_def)

lemma raise_run [simp]: "raise e s = (Inl e, s)"
  by (simp add: raise_def)

lemma get_run [simp]: "get f s = (Inr (f s), s)"
  by (simp add: get_def)

lemma logger_run [simp]: "logger l s = (Inr (), s\<lparr>trace := trace s @ [Log l]\<rparr>)"
  by (simp add: logger_def)

lemma perform_run [simp]:
  "perform ev oracle s = (external (oracle (trace s) ev), s\<lparr>trace := trace s @ [ev]\<rparr>)"
  by (simp add: perform_def)

lemma lift_run [simp]: "lift r s = (r, s)"
  by (cases r) (simp_all add: lift_def)

lemma external_simps [simp]: "external (Inr x) = Inr x" "external (Inl m) = Inl (External m)"
  by (simp_all add: external_def)

lemma bind_run: "bind m f s = (case m s of (Inl e, s') \<Rightarrow> (Inl e, s') | (Inr x, s') \<Rightarrow> f x s')"
  by (simp add: bind_def)

lemma bind_Inr [simp]: "m s = (Inr x, s') \<Longrightarrow> bind m f s = f x s'"
  by (simp add: bind_def)

lemma bind_return [simp]: "bind (return x) f = f x"
  by (simp add: bind_def return_def)

lemma bind_raise [simp]: "bind (raise e) f = raise e"
  by (simp add: bind_def raise_def)

lemma bind_Inl [simp]: "m s = (Inl e, s') \<Longrightarrow> bind m f s = (Inl e, s')"
  by (simp add: bind_def)

lemma multiply_run [simp]:
  "multiply w v mn mx s =
     (Inr (py_int (of_int v * get_multiplayer w (trace s) (Some (mn, mx)) * multiplier (self_chain s))),
      s\<lparr>trace := trace s @ [GetMultiplayer (Some (mn, mx))]\<rparr>)"
  by (simp add: multiply_def bind_run)

lemma query_fee_history_run [simp]:
  "query_fee_history w s =
     (external (ext_fee_history w (trace s)), s\<lparr>trace := trace s @ [EthFeeHistory 20 ''latest'' [40]]\<rparr>)"
  by (simp add: query_fee_history_def)

lemma any_nonzero_truthy: "any_nonzero (base_fees fh) \<Longrightarrow> fee_history_truthy fh"
  by (auto simp: any_nonzero_def base_fees_def fee_history_truthy_def split: option.splits)

section \<open>The events of the operations\<close>

text \<open>Only \<^verbatim>\<open>_sign_and_send\<close> signs or submits: the other operations extend the
  trace by quiet events.\<close>

lemma emitsI:
  assumes "\<And>s. \<exists>evs. trace (snd (m s)) = trace s @ evs \<and> list_all P evs"
  shows "emits P m"
  unfolding emits_def
proof
  fix s
  from assms [of s] obtain evs where "trace (snd (m s)) = trace s @ evs" "list_all P evs"
    by blast
  then show "trace (snd (m s)) = trace s @ new_events s (snd (m s))
     \<and> list_all P (new_events s (snd (m s)))"
    by (simp add: new_events_def)
qed

lemma emitsD:
  assumes "emits P m" and "m s = (r, s')"
  shows "trace s' = trace s @ new_events s s'" and "list_all P (new_events s s')"
proof -
  have "trace (snd (m s)) = trace s @ new_events s (snd (m s))
     \<and> list_all P (new_events s (snd (m s)))"
    using assms(1) unfolding emits_def by blast
  then show "trace s' = trace s @ new_events s s'" and "list_all P (new_events s s')"
    using assms(2) by simp_all
qed

lemma emits_return [simp, intro!]: "emits P (return x)"
  by (simp add: emits_def new_events_def)

lemma emits_raise [simp, intro!]: "emits P (raise e)"
  by (simp add: emits_def new_events_def)

lemma emits_get [simp, intro!]: "emits P (get f)"
  by (simp add: emits_def new_events_def)

lemma emits_lift [simp, intro!]: "emits P (lift r)"
  by (simp add: emits_def new_events_def)

lemma emits_perform [intro!]: "P ev \<Longrightarrow> emits P (perform ev oracle)"
  by (simp add: emits_def new_events_def)

lemma emits_logger [intro!]: "P (Log l) \<Longrightarrow> emits P (logger l)"
  by (simp add: emits_def new_events_def)

lemma emits_bind [intro!]:
  assumes "emits P m" and "\<And>x. emits P (f x)"
  shows "emits P (bind m f)"
proof (rule emitsI)
  fix s
  obtain r s1 where m: "m s = (r, s1)" by (cases "m s")
  note e1 = emitsD [OF assms(1) m]
  show "\<exists>evs. trace (snd (bind m f s)) = trace s @ evs \<and> list_all P evs"
  proof (cases r)
    case (Inl e)
    then show ?thesis using m e1 by (auto simp: bind_run)
  next
    case (Inr x)
    obtain r2 s2 where f: "f x s1 = (r2, s2)" by (cases "f x s1")
    note e2 = emitsD [OF assms(2) f]
    have "trace s2 = trace s @ (new_events s s1 @ new_events s1 s2)"
      using e1(1) e2(1) by simp
    moreover have "list_all P (new_events s s1 @ new_events s1 s2)"
      using e1(2) e2(2) by simp
    ultimately show ?thesis using Inr m f by (auto simp: bind_run)
  qed
qed

lemma emits_if [intro!]: "emits P m \<Longrightarrow> emits P n \<Longrightarrow> emits P (if c then m else n)"
  by simp

lemma emits_multiply [intro!]: "P (GetMultiplayer (Some (a, b))) \<Longrightarrow> emits P (multiply w v a b)"
  by (simp add: emits_def new_events_def)

lemma quiet_simps [simp]:
  "quiet (EthFeeHistory n t ps)" "quiet EthGasPrice" "quiet (EthEstimateGas tx)"
  "quiet (EthGetTransactionCount a)" "quiet (EthGetBalance a)" "quiet (EthCall a c)"
  "quiet (BuildTransaction a d)" "quiet (GetMultiplayer b)" "quiet (Log l)"
  "quiet EtherscanGetLogs" "\<not> quiet (SignTransaction tx)" "\<not> quiet (SendRawTransaction tx)"
  by (simp_all add: quiet_def)

lemma emits_get_fee: "emits quiet (get_fee w txo)"
  unfolding emits_def
proof
  fix s
  obtain r s' where g: "get_fee w txo s = (r, s')" by (cases "get_fee w txo s")
  then have "trace s' = trace s @ new_events s s' \<and> list_all quiet (new_events s s')"
    by (cases "is_eip1559 s (self_chain s)")
       (auto simp: get_fee_def bind_run Let_def external_def any_nonzero_truthy new_events_def
           split: sum.splits option.splits if_splits)
  then show "trace (snd (get_fee w txo s)) = trace s @ new_events s (snd (get_fee w txo s))
     \<and> list_all quiet (new_events s (snd (get_fee w txo s)))"
    using g by simp
qed

lemma emits_get_l1_fee: "emits quiet (get_l1_fee w tx)"
  by (rule emitsI) (auto simp: get_l1_fee_def bind_run Let_def split: sum.splits)

lemma emits_prepare_tx: "emits quiet (prepare_tx w v a)"
  unfolding prepare_tx_def Let_def by (intro emits_bind emits_get_fee emits_get emits_perform emits_return) simp

lemma emits_estimate_gas: "emits quiet (estimate_gas w tx)"
  unfolding estimate_gas_def by (intro emits_bind emits_perform emits_return) simp_all

lemma emits_build_transaction: "emits quiet (build_transaction w a c tx)"
  unfolding build_transaction_def by (intro emits_bind emits_perform emits_return) simp_all

lemma emits_get_token_params: "emits quiet (get_token_params w a)"
  unfolding get_token_params_def
  by (intro emits_bind emits_perform emits_return emits_lift emits_get emits_if) simp_all

lemma emits_resolve_token: "emits quiet (resolve_token w tok)"
  unfolding resolve_token_def
  by (cases tok) (auto intro!: emits_get_token_params simp: split_def)

lemma emits_get_balance: "emits quiet (get_balance w tok a)"
proof -
  have 1: "emits quiet (case tok of
             TokenNone \<Rightarrow> (\<lambda>s. (Inr (TokenObj ((NATIVE_TOKEN s)\<lparr>token_chain := self_chain s\<rparr>)),
                  s\<lparr>NATIVE_TOKEN := (NATIVE_TOKEN s)\<lparr>token_chain := self_chain s\<rparr>\<rparr>))
           | _ \<Rightarrow> return tok)"
    by (cases tok) (simp_all add: emits_def new_events_def)
  show ?thesis
    unfolding get_balance_def Let_def
    by (intro emits_bind 1 emits_get emits_lift emits_resolve_token emits_if emits_logger
          emits_raise emits_perform emits_return) simp_all
qed

lemma emits_validate: "emits quiet (validate_native_transfer_value w tx)"
  unfolding validate_native_transfer_value_def Let_def
  by (auto intro!: emits_get_l1_fee emits_get_balance simp: split_def split: option.splits)

lemma emits_get_allowance: "emits quiet (get_allowance w tok sp)"
  unfolding get_allowance_def
  by (auto split: token_arg.splits)

section \<open>The median priority fee\<close>

lemma first_rewards_Inr:
  "first_rewards rs = Inr xs \<Longrightarrow> xs = filter (\<lambda>x. x \<noteq> 0) (map hd rs) \<and> [] \<notin> set rs"
  by (induction rs arbitrary: xs rule: first_rewards.induct) (auto split: sum.splits)

lemma length_filter_sort:
  "length (filter P (sort xs)) = length (filter P (xs::int list))"
proof -
  have "mset (filter P (sort xs)) = mset (filter P xs)"
    by (simp add: mset_filter)
  then show ?thesis
    by (metis size_mset)
qed

lemma sorted_below_index:
  assumes "sorted (ys::int list)" and "i < length ys"
  shows "length (filter (\<lambda>x. x < ys ! i) ys) \<le> i"
proof -
  have "\<not> ys ! (i + k) < ys ! i" if "i + k < length ys" for k
    using sorted_nth_mono [OF assms(1), of i "i + k"] that by simp
  then have "filter (\<lambda>x. x < ys ! i) (drop i ys) = []"
    by (auto simp: filter_empty_conv in_set_conv_nth)
  then have "filter (\<lambda>x. x < ys ! i) ys = filter (\<lambda>x. x < ys ! i) (take i ys)"
    by (metis append_Nil2 append_take_drop_id filter_append)
  then have "length (filter (\<lambda>x. x < ys ! i) ys) \<le> length (take i ys)"
    by (metis length_filter_le)
  then show ?thesis by simp
qed

lemma sorted_above_index:
  assumes "sorted (ys::int list)" and "i < length ys"
  shows "length (filter (\<lambda>x. ys ! i < x) ys) \<le> length ys - Suc i"
proof -
  have "\<not> ys ! i < ys ! k" if "k < Suc i" for k
    using sorted_nth_mono [OF assms(1), of k i] that assms(2) by simp
  then have "filter (\<lambda>x. ys ! i < x) (take (Suc i) ys) = []"
    by (auto simp: filter_empty_conv in_set_conv_nth)
  then have "filter (\<lambda>x. ys ! i < x) ys = filter (\<lambda>x. ys ! i < x) (drop (Suc i) ys)"
    by (metis append_Nil append_take_drop_id filter_append)
  then have "length (filter (\<lambda>x. ys ! i < x) ys) \<le> length (drop (Suc i) ys)"
    by (metis length_filter_le)
  then show ?thesis by simp
qed

lemma median_of_upper:
  assumes "fees \<noteq> []"
  shows "median_of fees \<in> set fees"
    and "length (filter (\<lambda>x. x < median_of fees) fees) \<le> length fees div 2"
    and "length (filter (\<lambda>x. median_of fees < x) fees) \<le> (length fees - 1) div 2"
proof -
  let ?ys = "sort fees" and ?i = "length fees div 2"
  have i: "?i < length ?ys" using assms by (simp add: length_greater_0_conv)
  have m: "median_of fees = ?ys ! ?i" by (simp add: median_of_def)
  show "median_of fees \<in> set fees"
    using i m by (metis nth_mem set_sort)
  have "length (filter (\<lambda>x. x < ?ys ! ?i) ?ys) \<le> ?i"
    using i by (intro sorted_below_index) simp_all
  then show "length (filter (\<lambda>x. x < median_of fees) fees) \<le> length fees div 2"
    by (simp add: m length_filter_sort)
  have "length (filter (\<lambda>x. ?ys ! ?i < x) ?ys) \<le> length ?ys - Suc ?i"
    using i by (intro sorted_above_index) simp_all
  moreover have "0 < length fees" using assms by simp
  then have "length ?ys - Suc ?i = (length fees - 1) div 2"
    by simp
  ultimately show "length (filter (\<lambda>x. median_of fees < x) fees) \<le> (length fees - 1) div 2"
    by (simp add: m length_filter_sort)
qed



section \<open>Classification of the fee model\<close>

text \<open>
  Claim C3, as the code has it. A call of \<^verbatim>\<open>_get_fee\<close> never changes the active
  chain. On a chain whose flag is not set it asks once for the fee history of 20 blocks
  at the 40th percentile and sets the flag of that chain: EIP-1559 iff a base fee of the
  answer is not zero. On a chain whose flag is set the flags stay as they are; a legacy
  chain is never asked for its fee history, and an EIP-1559 chain is asked once in every
  call, for the base fee and the rewards that price the transaction.
\<close>

theorem get_fee_classification:
  "get_fee w txo s = (r, s') \<Longrightarrow>
     self_chain s' = self_chain s \<and> trace s' = trace s @ new_events s s' \<and>
     (case is_eip1559 s (self_chain s) of
        None \<Rightarrow>
          filter is_fee_history (new_events s s') = [EthFeeHistory 20 ''latest'' [40]] \<and>
          (case ext_fee_history w (trace s) of
             Inl msg \<Rightarrow> r = Inl (External msg) \<and> is_eip1559 s' = is_eip1559 s
           | Inr fh \<Rightarrow> is_eip1559 s' =
               (is_eip1559 s)(self_chain s := Some (any_nonzero (base_fees fh))))
      | Some False \<Rightarrow> is_eip1559 s' = is_eip1559 s \<and> filter is_fee_history (new_events s s') = []
      | Some True \<Rightarrow>
          is_eip1559 s' = is_eip1559 s \<and>
          filter is_fee_history (new_events s s') = [EthFeeHistory 20 ''latest'' [40]])"
  by (cases "is_eip1559 s (self_chain s)")
     (auto simp: get_fee_def bind_run Let_def external_def any_nonzero_truthy new_events_def
           split: sum.splits option.splits if_splits)

theorem get_fee_classification_witness:
  "is_eip1559 (snd (get_fee world0 None (state0 None))) chain0 = Some True
   \<and> filter is_fee_history (trace (snd (get_fee world0 None (state0 None))))
       = [EthFeeHistory 20 ''latest'' [40]]
   \<and> is_eip1559 (snd (get_fee world0 None (state0 (Some False)))) chain0 = Some False
   \<and> filter is_fee_history (trace (snd (get_fee world0 None (state0 (Some False))))) = []"
  using get_fee_classification [of world0 None "state0 None"
          "fst (get_fee world0 None (state0 None))" "snd (get_fee world0 None (state0 None))"]
        get_fee_classification [of world0 None "state0 (Some False)"
          "fst (get_fee world0 None (state0 (Some False)))"
          "snd (get_fee world0 None (state0 (Some False)))"]
  by (simp add: fixtures any_nonzero_def base_fees_def)

text \<open>With the flag already set to EIP-1559, a fee computation queries the fee history
  again.\<close>

theorem get_fee_requeries_counterexample:
  "is_eip1559 (state0 (Some True)) (self_chain (state0 (Some True))) = Some True
   \<and> trace (state0 (Some True)) = []
   \<and> filter is_fee_history (trace (snd (get_fee world0 None (state0 (Some True)))))
       = [EthFeeHistory 20 ''latest'' [40]]"
  by (simp add: fixtures get_fee_def bind_run fee_history_truthy_def base_fees_def
        median_priority_fee_def priority_fees_def median_of_def)

section \<open>Leaving a session\<close>

lemma Bot_exit_run:
  "Bot_exit w exc s =
     (case ext_unit w (trace s) CloseBrowser of
        Inl msg \<Rightarrow> (Inl (External msg), s\<lparr>trace := trace s @ [CloseBrowser]\<rparr>)
      | Inr _ \<Rightarrow> (Inr True, s\<lparr>trace := trace s @ [CloseBrowser, Log (exit_level exc)]\<rparr>))"
  by (simp add: Bot_exit_def bind_run exit_level_def split: sum.splits option.splits)



section \<open>Monetary values at the surface\<close>

lemma get_gas_price_run:
  "get_gas_price w gwei s =
     (case ext_int w (trace s) EthGasPrice of
        Inl msg \<Rightarrow> Inl (External msg)
      | Inr gas_price \<Rightarrow>
          Inr (if gwei then PyFloat (of_int gas_price / 10 ^ 9) else PyInt gas_price),
      s\<lparr>trace := trace s @ [EthGasPrice]\<rparr>)"
  by (simp add: get_gas_price_def bind_run split: sum.splits)



section \<open>Native transfers\<close>

lemma state0_simps [simp]:
  "trace (state0 f) = []" "self_chain (state0 f) = chain0"
  "account_address (state0 f) = ''0xA11ce''" "NATIVE_TOKEN (state0 f) = native0"
  "is_eip1559 (state0 f) = (\<lambda>c. f)"
  by (simp_all add: state0_def)

lemma chain0_simps [simp]:
  "chain_name chain0 = ''ethereum''" "multiplier chain0 = 1" "chain_id chain0 = 1"
  "native_token chain0 = ''ETH''"
  by (simp_all add: chain0_def)

lemma native0_simps [simp]:
  "token_chain native0 = chain0" "type_token native0 = NATIVE" "token_decimals native0 = 18"
  "native0\<lparr>token_chain := chain0\<rparr> = native0"
  "native0\<lparr>token_chain := chain0, symbol := ''ETH''\<rparr> = native0"
  "native0\<lparr>symbol := ''ETH''\<rparr> = native0"
  by (simp_all add: native0_def)

lemma state0_native [simp]: "(state0 f)\<lparr>NATIVE_TOKEN := native0\<rparr> = state0 f"
  by (simp add: state0_def)

lemma wallet_world_simps [simp]:
  "ext_int (wallet_world b) h (EthGetBalance a) = Inr b"
  "ext_int (wallet_world b) h (EthEstimateGas tx) = Inr 1"
  "ext_int (wallet_world b) h EthGasPrice = Inr 9"
  "ext_int (wallet_world b) h (EthGetTransactionCount a) = Inr 9"
  "get_multiplayer (wallet_world b) h r = (if Log WARNING \<in> set h then 6 / 5 else 10 / 9)"
  "to_checksum (wallet_world b) a = Inr a"
  "Amount_default_decimals (wallet_world b) = 18"
  "Amount_bool (wallet_world b) a' = True"
  "ext_str (wallet_world b) h ev = Inr ''0xhash''"
  "ext_unit (wallet_world b) h ev = Inr ()"
  by (simp_all add: wallet_world_def world0_def)

lemma transfer_tx_simps [simp]:
  "tx_value (transfer_tx p v) = Some v" "tx_to (transfer_tx p v) = Some ''0xB0b''"
  "maxFeePerGas (transfer_tx p v) = None" "gasPrice (transfer_tx p v) = Some p"
  "(transfer_tx p v)\<lparr>tx_value := Some v'\<rparr> = transfer_tx p v'"
  by (simp_all add: transfer_tx_def empty_tx_def)

lemma floor_divide_numeral [simp]:
  "\<lfloor>numeral a / numeral b :: rat\<rfloor> = numeral a div numeral b"
  using floor_divide_of_int_eq [of "numeral a" "numeral b", where ?'a = rat] by simp

lemma empty_tx_simps [simp]:
  "gasPrice empty_tx = None" "tx_type empty_tx = None" "maxFeePerGas empty_tx = None"
  "maxPriorityFeePerGas empty_tx = None" "tx_from empty_tx = None" "tx_nonce empty_tx = None"
  "tx_chainId empty_tx = None" "tx_value empty_tx = None" "tx_to empty_tx = None"
  "tx_data empty_tx = None" "tx_gas empty_tx = None"
  by (simp_all add: empty_tx_def)

lemma py_int_ge:
  assumes "0 \<le> x" and "1 \<le> r"
  shows "x \<le> py_int (of_int x * r)"
proof -
  have "(of_int x :: rat) \<le> of_int x * r"
    using assms by (simp add: mult_le_cancel_left1)
  then have "x \<le> \<lfloor>of_int x * r\<rfloor>" by (simp add: le_floor_iff)
  moreover have "0 \<le> of_int x * r" using assms by simp
  ultimately show ?thesis by (simp add: py_int_def)
qed

lemma get_l1_fee_result:
  assumes "get_l1_fee w tx s = (Inr (l1_fee, tx1), s1)"
  shows "tx_value tx1 = tx_value tx" and "tx_to tx1 = tx_to tx"
    and "maxFeePerGas tx1 = maxFeePerGas tx" and "gasPrice tx1 = gasPrice tx"
    and "self_chain s1 = self_chain s" and "account_address s1 = account_address s"
  using assms
  by (auto simp: get_l1_fee_def bind_run Let_def split: if_splits sum.splits)

lemma get_balance_state:
  assumes "get_balance w tok a s = (r, s')"
  shows "self_chain s' = self_chain s" and "account_address s' = account_address s"
  using assms
  by (auto simp: get_balance_def resolve_token_def get_token_params_def bind_run Let_def
        split: token_arg.splits sum.splits if_splits prod.splits)

lemma get_balance_native_events:
  assumes "get_balance w TokenNone None s = (Inr b, s')"
  shows "\<exists>a. new_events s s' = [EthGetBalance a] \<or> new_events s s' = [EthCall (token_address (NATIVE_TOKEN s)) (BalanceOf a)]"
  using assms
  by (auto simp: get_balance_def resolve_token_def bind_run Let_def new_events_def
        split: sum.splits if_splits)

lemma validate_run:
  assumes "tx_value tx = Some v"
    and "get_l1_fee w tx s = (Inr (l1_fee, tx1), s1)"
    and "ext_int w (trace s1) (EthEstimateGas (probe_tx (account_address s1))) = Inr gues_gas"
    and "(case maxFeePerGas tx1 of Some p \<Rightarrow> Some p | None \<Rightarrow> gasPrice tx1) = Some gues_gas_price"
    and "s2 = s1\<lparr>trace := trace s1 @ [EthEstimateGas (probe_tx (account_address s1)),
                 GetMultiplayer (Some (11 / 10, 12 / 10))]\<rparr>"
    and "fee_spend = py_int (of_int (wei l1_fee + gues_gas * gues_gas_price)
           * get_multiplayer w (trace s1 @ [EthEstimateGas (probe_tx (account_address s1))])
               (Some (11 / 10, 12 / 10))
           * multiplier (self_chain s1))"
    and "get_balance w TokenNone None s2 = (Inr balance, s3)"
  shows "validate_native_transfer_value w tx s =
     (if wei balance - fee_spend - v \<ge> 0 then (Inr tx1, s3)
      else case tx_to tx1 of
        None \<Rightarrow> (Inl KeyError, s3)
      | Some _ \<Rightarrow>
          (let m = py_int (of_int fee_spend
                     * get_multiplayer w (trace s3 @ [Log WARNING]) (Some (11 / 10, 12 / 10))
                     * multiplier (self_chain s3))
           in if wei balance - m > 0
              then (Inr (tx1\<lparr>tx_value := Some (wei balance - m)\<rparr>),
                    s3\<lparr>trace := trace s3 @ [Log WARNING, GetMultiplayer (Some (11 / 10, 12 / 10))]\<rparr>)
              else (Inl (ValueError NotEnoughNative),
                    s3\<lparr>trace := trace s3 @ [Log WARNING, GetMultiplayer (Some (11 / 10, 12 / 10)),
                                 Log ERROR]\<rparr>)))"
  using assms
  by (simp add: validate_native_transfer_value_def bind_run Let_def split: option.splits)



section \<open>Insufficient funds\<close>

lemma no_value_error_perform [intro!]: "no_value_error (perform ev oracle)"
  by (simp add: no_value_error_def external_def split: sum.splits)

lemma no_value_error_return [intro!]: "no_value_error (return x)"
  by (simp add: no_value_error_def)

lemma no_value_error_logger [intro!]: "no_value_error (logger l)"
  by (simp add: no_value_error_def)

lemma no_value_error_bind [intro!]:
  assumes "no_value_error m" and "\<And>x. no_value_error (f x)"
  shows "no_value_error (bind m f)"
  unfolding no_value_error_def
proof (intro allI)
  fix s ve
  obtain r s1 where m: "m s = (r, s1)" by (cases "m s")
  show "fst (bind m f s) \<noteq> Inl (ValueError ve)"
  proof (cases r)
    case (Inl e)
    then show ?thesis using m assms(1) by (auto simp: bind_run no_value_error_def dest: spec [of _ s])
  next
    case (Inr x)
    then show ?thesis using m assms(2) [of x] by (simp add: bind_run no_value_error_def)
  qed
qed

lemma no_value_error_estimate_gas: "no_value_error (estimate_gas w tx)"
  unfolding estimate_gas_def by (intro no_value_error_bind no_value_error_perform no_value_error_return)

lemma no_value_error_sign_and_send: "no_value_error (sign_and_send w tx)"
  unfolding sign_and_send_def by (intro no_value_error_bind no_value_error_perform)

lemma fails_quietly_no_value_error: "no_value_error m \<Longrightarrow> fails_quietly m"
  by (simp add: fails_quietly_def no_value_error_def)

lemma fails_quietly_bind:
  assumes "emits quiet m" and "\<And>x. fails_quietly (f x)"
  shows "fails_quietly (bind m f)"
  unfolding fails_quietly_def
proof (intro allI impI)
  fix s ve
  assume err: "fst (bind m f s) = Inl (ValueError ve)"
  obtain r s1 where m: "m s = (r, s1)" by (cases "m s")
  note e1 = emitsD [OF assms(1) m]
  show "trace (snd (bind m f s)) = trace s @ new_events s (snd (bind m f s))
     \<and> list_all quiet (new_events s (snd (bind m f s)))"
  proof (cases r)
    case (Inl e)
    then show ?thesis using m e1 by (simp add: bind_run)
  next
    case (Inr x)
    then have b: "bind m f s = f x s1" using m by (simp add: bind_run)
    have "trace (snd (f x s1)) = trace s1 @ new_events s1 (snd (f x s1))
       \<and> list_all quiet (new_events s1 (snd (f x s1)))"
      using assms(2) [of x] err b unfolding fails_quietly_def by simp
    then obtain evs where evs: "trace (snd (f x s1)) = trace s1 @ evs" "list_all quiet evs"
      by blast
    have "trace (snd (f x s1)) = trace s @ (new_events s s1 @ evs)"
      using e1(1) evs(1) by simp
    moreover have "list_all quiet (new_events s s1 @ evs)"
      using e1(2) evs(2) by simp
    ultimately show ?thesis
      unfolding b by (simp add: new_events_def)
  qed
qed

lemma emits_send_token_none:
  "emits quiet (case token_in of
             TokenNone \<Rightarrow> (\<lambda>s. (Inr (TokenObj ((NATIVE_TOKEN s)\<lparr>token_chain := self_chain s,
                                          symbol := native_token (self_chain s)\<rparr>)),
                   s\<lparr>NATIVE_TOKEN := (NATIVE_TOKEN s)\<lparr>token_chain := self_chain s,
                                          symbol := native_token (self_chain s)\<rparr>\<rparr>))
           | _ \<Rightarrow> return token_in)"
  by (cases token_in) (simp_all add: emits_def new_events_def)

lemma emits_send_token_amount:
  "emits quiet (case amount_in of
                      AmountNone \<Rightarrow>
                        bind (get_balance w tok None)
                          (\<lambda>b. case tok of
                                  TokenObj t \<Rightarrow> return (Inr (Amount_wei (wei b) (token_decimals t)))
                                | _ \<Rightarrow> raise AttributeError)
                    | AmountNum n \<Rightarrow> return (Inl n)
                    | AmountObj a \<Rightarrow> return (Inr a))"
  by (cases amount_in) (auto intro!: emits_get_balance split: token_arg.splits)

lemma emits_send_token_prepare:
  "emits quiet (if type_token t = NATIVE
                            then bind (prepare_tx w (Some amount0) (Some to_addr))
                                   (\<lambda>tx. bind (validate_native_transfer_value w tx)
                                      (\<lambda>tx'. case tx_value tx' of
                                                None \<Rightarrow> raise KeyError
                                              | Some v \<Rightarrow> return (tx')))
                            else bind (get_balance w (TokenObj t) None)
                                   (\<lambda>balance.
                                      bind (prepare_tx w None None)
                                           (build_transaction w (token_address t)
                                              (TransferCall to_addr (wei (if wei balance < wei amount0
                                                     then balance else amount0))))))"
  by (auto intro!: emits_prepare_tx emits_validate emits_get_balance emits_build_transaction
        split: option.splits)

lemma fails_quietly_send_token: "fails_quietly (send_token w to_address amount_in token_in)"
  unfolding send_token_def Let_def
  by (intro fails_quietly_bind emits_send_token_none emits_send_token_amount emits_lift
        emits_resolve_token emits_send_token_prepare fails_quietly_no_value_error
        no_value_error_bind no_value_error_estimate_gas no_value_error_sign_and_send
        no_value_error_logger no_value_error_return)

lemma wallet_send_5:
  "send_token (wallet_world 5) ''0xB0b'' (AmountObj (Amount_wei 3 18)) TokenNone (state0 (Some False))
     = (Inl (ValueError NotEnoughNative),
        (state0 (Some False))\<lparr>trace := [EthGasPrice, GetMultiplayer (Some (103 / 100, 11 / 10)),
           EthGetTransactionCount ''0xA11ce'', EthEstimateGas (probe_tx ''0xA11ce''),
           GetMultiplayer (Some (11 / 10, 12 / 10)), EthGetBalance ''0xA11ce'',
           Log WARNING, GetMultiplayer (Some (11 / 10, 12 / 10)), Log ERROR]\<rparr>)"
  by (simp add: send_token_def resolve_token_def prepare_tx_def get_fee_def
        validate_native_transfer_value_def get_l1_fee_def get_balance_def bind_run py_int_def
        Amount_wei_def Let_def probe_tx_def)

lemma wallet_send_12:
  "fst (send_token (wallet_world 12) ''0xB0b'' (AmountObj (Amount_wei 1 18)) TokenNone
     (state0 (Some False))) = Inr ''0xhash''
   \<and> filter is_send (trace (snd (send_token (wallet_world 12) ''0xB0b''
        (AmountObj (Amount_wei 1 18)) TokenNone (state0 (Some False))))) =
      [SendRawTransaction (empty_tx\<lparr>gasPrice := Some 10, tx_from := Some ''0xA11ce'',
         tx_nonce := Some 9, tx_chainId := Some 1, tx_value := Some 1, tx_to := Some ''0xB0b'',
         tx_gas := Some 1\<rparr>)]"
  by (simp add: send_token_def resolve_token_def prepare_tx_def get_fee_def
        validate_native_transfer_value_def get_l1_fee_def get_balance_def bind_run py_int_def
        Amount_wei_def Let_def probe_tx_def estimate_gas_def sign_and_send_def)




section \<open>Approvals against the existing allowance\<close>

lemma world0_simps [simp]:
  "ext_int world0 h ev = Inr 10" "ext_str world0 h ev = Inr ''0xhash''"
  "ext_unit world0 h ev = Inr ()" "get_multiplayer world0 h r = 11 / 10"
  "to_checksum world0 a = Inr a" "to_checksum_address world0 a = Inr a"
  "Amount_default_decimals world0 = 18"
  "Amount_bool world0 a' = True" "ext_fee_history world0 h = Inr fee_history0"
  "etherscan_api_key world0 = ''key''"
  "Token_type world0 a = (if a = token_address native0 then NATIVE else ERC20)"
  by (simp_all add: world0_def)

lemma allowance_world_simps [simp]:
  "ext_int (allowance_world b) h (EthCall a (Allowance x y)) = Inr b"
  "ext_int (allowance_world b) h EthGasPrice = Inr 10"
  "ext_int (allowance_world b) h (EthGetTransactionCount a) = Inr 10"
  "ext_int (allowance_world b) h (EthEstimateGas tx) = Inr 10"
  "ext_str (allowance_world b) h ev = Inr ''0xhash''"
  "ext_unit (allowance_world b) h ev = Inr ()"
  "get_multiplayer (allowance_world b) h r = 11 / 10"
  "to_checksum (allowance_world b) a = Inr a"
  "to_checksum_address (allowance_world b) a = Inr a"
  by (simp_all add: allowance_world_def world0_def)

lemma usdt_simps [simp]:
  "type_token usdt0 = ERC20" "type_token usdt1 = ERC20"
  "token_chain usdt0 = chain0" "token_chain usdt1 = chain1"
  "token_decimals usdt0 = 6" "token_decimals usdt1 = 6"
  "token_address usdt0 = ''0xdAC17F958D2ee523a2206206994597C13D831ec7''"
  "token_address usdt1 = ''0xFd086bC7CD5C481DCC9C85ebE478A1C0b69FCbb9''"
  "chain1 \<noteq> chain0" "chain0 \<noteq> chain1"
  by (simp_all add: usdt0_def usdt1_def chain0_def chain1_def)

lemma revoke_world_simps [simp]:
  "ext_logs (revoke_world logs) h = Inr logs"
  "ext_int (revoke_world logs) h (EthCall a (Allowance x y)) =
     (if a = ''0xAAAA'' then Inl ''execution reverted'' else Inr 50)"
  "ext_int (revoke_world logs) h (EthCall a Decimals) = Inr 10"
  "ext_int (revoke_world logs) h EthGasPrice = Inr 10"
  "ext_int (revoke_world logs) h (EthGetTransactionCount a) = Inr 10"
  "ext_int (revoke_world logs) h (EthEstimateGas tx) = Inr 10"
  "ext_str (revoke_world logs) h ev = Inr ''0xhash''"
  "ext_unit (revoke_world logs) h ev = Inr ()"
  "get_multiplayer (revoke_world logs) h r = 11 / 10"
  "to_checksum (revoke_world logs) a = Inr a"
  "to_checksum_address (revoke_world logs) a = Inr a"
  "etherscan_api_key (revoke_world logs) = ''key''"
  "Token_type (revoke_world logs) a = (if a = token_address native0 then NATIVE else ERC20)"
  "wei (Amount_of_number (revoke_world logs) (PyInt 0) d) = 0"
  by (simp_all add: revoke_world_def world0_def Amount_wei_def)

lemma native0_address [simp]:
  "token_address native0 = ''0xEeeeeEeeeEeEeeEeEeEeeEEEeeeeEeeeeeeeEEeE''"
  by (simp add: native0_def)

lemma Amount_wei_simps [simp]: "wei (Amount_wei v d) = v" "amount_decimals (Amount_wei v d) = d"
  by (simp_all add: Amount_wei_def)

lemma bind_eq_InrE:
  assumes "bind m f s = (Inr y, s')"
  obtains x s1 where "m s = (Inr x, s1)" and "f x s1 = (Inr y, s')"
  using assms by (auto simp: bind_run split: sum.splits prod.splits)

lemma quiet_no_send: "list_all quiet evs \<Longrightarrow> filter is_send evs = []"
proof (induction evs)
  case Nil
  then show ?case by simp
next
  case (Cons e evs)
  then show ?case by (cases e) (simp_all add: quiet_def)
qed

lemma new_events_trans:
  assumes "trace s1 = trace s @ new_events s s1" and "trace s2 = trace s1 @ new_events s1 s2"
  shows "new_events s s2 = new_events s s1 @ new_events s1 s2"
    and "trace s2 = trace s @ new_events s s2"
proof -
  define evs where "evs = new_events s s1 @ new_events s1 s2"
  have "trace s2 = trace s @ evs"
    using assms by (simp add: evs_def)
  then have "new_events s s2 = evs"
    by (simp add: new_events_def)
  then show "new_events s s2 = new_events s s1 @ new_events s1 s2"
    by (simp add: evs_def)
  then show "trace s2 = trace s @ new_events s s2"
    using assms by simp
qed

lemma build_transaction_Inr:
  assumes "build_transaction w a c tx s = (Inr tx', s')"
  shows "tx' = tx\<lparr>tx_to := Some a, tx_data := Some c\<rparr>"
    and "trace s' = trace s @ [BuildTransaction a c]"
  using assms by (auto simp: build_transaction_def bind_run split: sum.splits)

lemma estimate_gas_Inr:
  assumes "estimate_gas w tx s = (Inr tx', s')"
  shows "\<exists>g. tx' = tx\<lparr>tx_gas := Some g\<rparr>"
    and "trace s' = trace s @ [EthEstimateGas tx, GetMultiplayer None]"
  using assms by (auto simp: estimate_gas_def bind_run split: sum.splits)

lemma sign_and_send_Inr:
  assumes "sign_and_send w tx s = (Inr h, s')"
  shows "\<exists>h0. trace s' = trace s @ [SignTransaction tx, SendRawTransaction tx, WaitForReceipt h0]"
  using assms by (auto simp: sign_and_send_def bind_run split: sum.splits)

text \<open>Gas estimation, signing and sending: what a successful run has added to the trace.\<close>

lemma submit_Inr:
  assumes "estimate_gas w tx s = (Inr tx', s1)" and "sign_and_send w tx' s1 = (Inr h, s2)"
  shows "\<exists>g. filter is_send (new_events s s2) = [SendRawTransaction (tx\<lparr>tx_gas := Some g\<rparr>)]"
    and "trace s2 = trace s @ new_events s s2"
proof -
  from estimate_gas_Inr [OF assms(1)] obtain g where
    g: "tx' = tx\<lparr>tx_gas := Some g\<rparr>" and t1: "trace s1 = trace s @ [EthEstimateGas tx, GetMultiplayer None]"
    by blast
  from sign_and_send_Inr [OF assms(2)] obtain h0 where
    t2: "trace s2 = trace s1 @ [SignTransaction tx', SendRawTransaction tx', WaitForReceipt h0]"
    by blast
  have "new_events s s2 = [EthEstimateGas tx, GetMultiplayer None, SignTransaction tx',
      SendRawTransaction tx', WaitForReceipt h0]"
    using t1 t2 by (simp add: new_events_def)
  then show "\<exists>g. filter is_send (new_events s s2) = [SendRawTransaction (tx\<lparr>tx_gas := Some g\<rparr>)]"
    using g by auto
  show "trace s2 = trace s @ new_events s s2"
    using t1 t2 by (simp add: new_events_def)
qed

lemma approve_run:
  assumes "type_token t \<noteq> NATIVE"
    and "get_allowance w (TokenObj t) spender s = (Inr allowed, s1)"
    and "amt = (case amount_in of AmountNum n \<Rightarrow> Amount_of_number w n (token_decimals t)
                | AmountObj a \<Rightarrow> a | AmountNone \<Rightarrow> amt)"
    and "amount_in \<noteq> AmountNone"
  shows "approve w (TokenObj t) amount_in spender s =
     (if wei amt = 0 \<and> wei allowed = 0 then (Inr (), s1)
      else if wei amt \<noteq> 0 \<and> wei allowed \<ge> wei amt then (Inr (), s1)
      else bind (prepare_tx w None None)
          (\<lambda>tx. bind (get_fee w (Some tx))
             (\<lambda>tx1. bind (build_transaction w (token_address t)
                           (ApproveCall (spender_address spender) (wei amt)) tx1)
                (\<lambda>tx2. bind (estimate_gas w tx2)
                   (\<lambda>tx3. bind (sign_and_send w tx3) (\<lambda>_. logger INFO))))) s1)"
  using assms by (cases amount_in) (simp_all add: approve_def)

lemma approve_skips:
  assumes "type_token t \<noteq> NATIVE"
    and "get_allowance w (TokenObj t) spender s = (Inr allowed, s1)"
    and "amt = (case amount_in of AmountNum n \<Rightarrow> Amount_of_number w n (token_decimals t)
                | AmountObj a \<Rightarrow> a | AmountNone \<Rightarrow> amt)"
    and "amount_in \<noteq> AmountNone"
    and "(wei amt = 0 \<and> wei allowed = 0) \<or> (wei amt \<noteq> 0 \<and> wei allowed \<ge> wei amt)"
  shows "approve w (TokenObj t) amount_in spender s = (Inr (), s1)"
    and "filter is_send (new_events s s1) = []"
proof -
  show "approve w (TokenObj t) amount_in spender s = (Inr (), s1)"
    using approve_run [OF assms(1-4)] assms(5) by auto
  show "filter is_send (new_events s s1) = []"
    using emitsD(2) [OF emits_get_allowance assms(2)] by (rule quiet_no_send)
qed

lemma approve_sends_once:
  assumes "type_token t \<noteq> NATIVE"
    and "get_allowance w (TokenObj t) spender s = (Inr allowed, s1)"
    and "amt = (case amount_in of AmountNum n \<Rightarrow> Amount_of_number w n (token_decimals t)
                | AmountObj a \<Rightarrow> a | AmountNone \<Rightarrow> amt)"
    and "amount_in \<noteq> AmountNone"
    and "\<not> ((wei amt = 0 \<and> wei allowed = 0) \<or> (wei amt \<noteq> 0 \<and> wei allowed \<ge> wei amt))"
    and "approve w (TokenObj t) amount_in spender s = (Inr (), s')"
  shows "\<exists>tx. filter is_send (new_events s s') = [SendRawTransaction tx]
     \<and> tx_to tx = Some (token_address t)
     \<and> tx_data tx = Some (ApproveCall (spender_address spender) (wei amt))"
proof -
  let ?call = "ApproveCall (spender_address spender) (wei amt)"
  have c: "\<not> (wei amt = 0 \<and> wei allowed = 0)" "\<not> (wei amt \<noteq> 0 \<and> wei allowed \<ge> wei amt)"
    using assms(5) by blast+
  have "approve w (TokenObj t) amount_in spender s =
      bind (prepare_tx w None None)
          (\<lambda>tx. bind (get_fee w (Some tx))
             (\<lambda>tx1. bind (build_transaction w (token_address t) ?call tx1)
                (\<lambda>tx2. bind (estimate_gas w tx2)
                   (\<lambda>tx3. bind (sign_and_send w tx3) (\<lambda>_. logger INFO))))) s1"
    unfolding approve_run [OF assms(1-4)] by (simp only: c if_False)
  then have "bind (prepare_tx w None None)
          (\<lambda>tx. bind (get_fee w (Some tx))
             (\<lambda>tx1. bind (build_transaction w (token_address t) ?call tx1)
                (\<lambda>tx2. bind (estimate_gas w tx2)
                   (\<lambda>tx3. bind (sign_and_send w tx3) (\<lambda>_. logger INFO))))) s1 = (Inr (), s')"
    using assms(6) by simp
  then obtain tx s2 tx1 s3 tx2 s4 tx3 s5 h s6 where
    p: "prepare_tx w None None s1 = (Inr tx, s2)"
    and f: "get_fee w (Some tx) s2 = (Inr tx1, s3)"
    and b: "build_transaction w (token_address t) ?call tx1 s3 = (Inr tx2, s4)"
    and e: "estimate_gas w tx2 s4 = (Inr tx3, s5)"
    and ss: "sign_and_send w tx3 s5 = (Inr h, s6)"
    and l: "logger INFO s6 = (Inr (), s')"
    by (elim bind_eq_InrE) blast
  note q0 = emitsD [OF emits_get_allowance assms(2)]
  note q1 = emitsD [OF emits_prepare_tx p]
  note q2 = emitsD [OF emits_get_fee f]
  note q3 = emitsD [OF emits_build_transaction b]
  note t01 = new_events_trans [OF q0(1) q1(1)]
  note t02 = new_events_trans [OF t01(2) q2(1)]
  note t03 = new_events_trans [OF t02(2) q3(1)]
  have quiet4: "filter is_send (new_events s s4) = []"
    using q0(2) q1(2) q2(2) q3(2) t01(1) t02(1) t03(1) by (simp add: quiet_no_send)
  from submit_Inr [OF e ss] obtain g where
    g: "filter is_send (new_events s4 s6) = [SendRawTransaction (tx2\<lparr>tx_gas := Some g\<rparr>)]"
    and t46: "trace s6 = trace s4 @ new_events s4 s6"
    by blast
  note t06 = new_events_trans [OF t03(2) t46]
  have s': "trace s' = trace s6 @ [Log INFO]" using l by auto
  have l6: "new_events s6 s' = [Log INFO]"
    using s' by (simp add: new_events_def)
  then have "trace s' = trace s6 @ new_events s6 s'"
    using s' by simp
  from new_events_trans(1) [OF t06(2) this] have "new_events s s' = new_events s s6 @ [Log INFO]"
    using l6 by simp
  then have "filter is_send (new_events s s') = [SendRawTransaction (tx2\<lparr>tx_gas := Some g\<rparr>)]"
    using t06(1) quiet4 g by simp
  moreover have "tx_to (tx2\<lparr>tx_gas := Some g\<rparr>) = Some (token_address t)"
    and "tx_data (tx2\<lparr>tx_gas := Some g\<rparr>) = Some ?call"
    using build_transaction_Inr(1) [OF b] by simp_all
  ultimately show ?thesis by blast
qed

text \<open>
  Claim C5, at a token given by its contract address. \<^verbatim>\<open>approve\<close> and
  \<^verbatim>\<open>_get_allowance\<close> read \<^verbatim>\<open>token.type_token\<close> before they turn an address
  into a \<^verbatim>\<open>Token\<close>, and a string has no such attribute: for every address, amount
  and spender the call raises before the allowance is read and no transaction is issued,
  whatever the allowance. For a \<^verbatim>\<open>Token\<close> object the claim holds: see
  \<open>approve_skips\<close> and \<open>approve_sends_once\<close> above.
\<close>

theorem approve_token_address_raises:
  "approve w (TokenStr a) amount_in spender s = (Inl AttributeError, s)
   \<and> get_allowance w (TokenStr a) spender s = (Inl AttributeError, s)"
  by (simp add: approve_def get_allowance_def)

section \<open>Tokens of another chain\<close>

lemma get_balance_other_chain:
  assumes "to_checksum w (case address_in of None \<Rightarrow> account_address s
                           | Some a \<Rightarrow> if a = [] then account_address s else a) = Inr addr"
    and "token_chain t \<noteq> self_chain s"
  shows "get_balance w (TokenObj t) address_in s =
     (Inl (ValueError TokenOnOtherChain), s\<lparr>trace := trace s @ [Log ERROR]\<rparr>)"
  using assms by (simp add: get_balance_def resolve_token_def bind_run Let_def)

lemma send_token_other_chain:
  assumes "to_checksum w to_address = Inr dest" and "to_checksum w (account_address s) = Inr addr"
    and "token_chain t \<noteq> self_chain s" and "type_token t \<noteq> NATIVE"
  shows "send_token w to_address (AmountObj a) (TokenObj t) s =
     (Inl (ValueError TokenOnOtherChain), s\<lparr>trace := trace s @ [Log ERROR]\<rparr>)"
    and "send_token w to_address (AmountNum n) (TokenObj t) s =
     (Inl (ValueError TokenOnOtherChain), s\<lparr>trace := trace s @ [Log ERROR]\<rparr>)"
    and "send_token w to_address AmountNone (TokenObj t) s =
     (Inl (ValueError TokenOnOtherChain), s\<lparr>trace := trace s @ [Log ERROR]\<rparr>)"
  using assms get_balance_other_chain [where w = w and address_in = None and s = s and addr = addr and t = t]
  by (simp_all add: send_token_def resolve_token_def bind_run Let_def)

lemma no_value_error_lift_external [intro!]: "no_value_error (lift (external r))"
  by (cases r) (simp_all add: no_value_error_def)

lemma no_value_error_get [intro!]: "no_value_error (get f)"
  by (simp add: no_value_error_def)

lemma no_value_error_raise [simp]:
  "no_value_error (raise AttributeError)" "no_value_error (raise IndexError)"
  "no_value_error (raise KeyError)" "no_value_error (raise TypeError)"
  by (simp_all add: no_value_error_def)

lemma no_value_error_multiply [intro!]: "no_value_error (multiply w v a b)"
  by (simp add: no_value_error_def)

lemma first_rewards_error: "first_rewards rs = Inl e \<Longrightarrow> e = IndexError"
  by (induction rs arbitrary: e rule: first_rewards.induct) (auto split: sum.splits)

lemma no_value_error_get_fee: "no_value_error (get_fee w txo)"
  unfolding no_value_error_def
proof (intro allI)
  fix s ve
  show "fst (get_fee w txo s) \<noteq> Inl (ValueError ve)"
    by (cases "is_eip1559 s (self_chain s)")
       (auto simp: get_fee_def bind_run Let_def external_def median_priority_fee_def
          priority_fees_def
          split: sum.splits option.splits if_splits dest: first_rewards_error)
qed


lemma no_value_error_prepare_tx: "no_value_error (prepare_tx w v a)"
  unfolding prepare_tx_def Let_def
  by (intro no_value_error_bind no_value_error_get_fee no_value_error_get
        no_value_error_perform no_value_error_return)

lemma no_value_error_build_transaction: "no_value_error (build_transaction w a c tx)"
  unfolding build_transaction_def
  by (intro no_value_error_bind no_value_error_perform no_value_error_return)

lemma no_value_error_get_allowance: "no_value_error (get_allowance w tok sp)"
  unfolding get_allowance_def
  by (auto split: token_arg.splits)

text \<open>\<^verbatim>\<open>approve\<close> never raises a \<^verbatim>\<open>ValueError\<close>: in particular it never
  rejects a token of another chain.\<close>

lemma approve_no_value_error: "no_value_error (approve w tok amount_in spender)"
  unfolding approve_def
  by (auto intro!: no_value_error_get_allowance no_value_error_prepare_tx no_value_error_get_fee
        no_value_error_build_transaction no_value_error_estimate_gas
        no_value_error_sign_and_send
        split: token_arg.splits option.splits)

lemma approve_never_rejects_chain:
  "fst (approve w tok amount_in spender s) \<noteq> Inl (ValueError TokenOnOtherChain)"
  using approve_no_value_error [of w tok amount_in spender]
  unfolding no_value_error_def by blast


section \<open>Token transfers\<close>

lemma send_token_erc20_run:
  assumes "type_token t \<noteq> NATIVE" and "to_checksum w to_address = Inr dest"
    and "get_balance w (TokenObj t) None s = (Inr balance, s1)"
  shows "send_token w to_address (AmountObj a) (TokenObj t) s =
     bind (bind (prepare_tx w None None)
             (build_transaction w (token_address t)
                (TransferCall dest (wei (if wei balance < wei a then balance else a)))))
       (\<lambda>tx. bind (estimate_gas w tx)
          (\<lambda>tx'. bind (sign_and_send w tx')
             (\<lambda>tx_hash. bind (logger INFO) (\<lambda>_. return tx_hash)))) s1"
  using assms
  by (simp add: send_token_def resolve_token_def bind_run Let_def split: sum.splits prod.splits)

lemma transfer_sends_once:
  assumes "bind (bind (prepare_tx w None None) (build_transaction w a c))
       (\<lambda>tx. bind (estimate_gas w tx)
          (\<lambda>tx'. bind (sign_and_send w tx')
             (\<lambda>tx_hash. bind (logger INFO) (\<lambda>_. return tx_hash)))) s1 = (Inr h, s')"
  shows "\<exists>tx. filter is_send (new_events s1 s') = [SendRawTransaction tx]
     \<and> tx_to tx = Some a \<and> tx_data tx = Some c"
    and "trace s' = trace s1 @ new_events s1 s'"
proof -
  from assms obtain tx s2 tx2 s3 tx3 s4 h0 s5 where
    p: "prepare_tx w None None s1 = (Inr tx, s2)"
    and b: "build_transaction w a c tx s2 = (Inr tx2, s3)"
    and e: "estimate_gas w tx2 s3 = (Inr tx3, s4)"
    and ss: "sign_and_send w tx3 s4 = (Inr h0, s5)"
    and l: "logger INFO s5 = (Inr (), s')"
    by (elim bind_eq_InrE) auto
  note q1 = emitsD [OF emits_prepare_tx p]
  note q2 = emitsD [OF emits_build_transaction b]
  note t13 = new_events_trans [OF q1(1) q2(1)]
  have quiet3: "filter is_send (new_events s1 s3) = []"
    using q1(2) q2(2) t13(1) by (simp add: quiet_no_send)
  from submit_Inr [OF e ss] obtain g where
    g: "filter is_send (new_events s3 s5) = [SendRawTransaction (tx2\<lparr>tx_gas := Some g\<rparr>)]"
    and t35: "trace s5 = trace s3 @ new_events s3 s5"
    by blast
  note t15 = new_events_trans [OF t13(2) t35]
  have s': "trace s' = trace s5 @ [Log INFO]" using l by auto
  have l5: "new_events s5 s' = [Log INFO]"
    using s' by (simp add: new_events_def)
  then have "trace s' = trace s5 @ new_events s5 s'"
    using s' by simp
  note t1' = new_events_trans [OF t15(2) this]
  have "filter is_send (new_events s1 s') = [SendRawTransaction (tx2\<lparr>tx_gas := Some g\<rparr>)]"
    using t1'(1) t15(1) quiet3 g l5 by simp
  moreover have "tx_to (tx2\<lparr>tx_gas := Some g\<rparr>) = Some a"
    and "tx_data (tx2\<lparr>tx_gas := Some g\<rparr>) = Some c"
    using build_transaction_Inr(1) [OF b] by simp_all
  ultimately show "\<exists>tx. filter is_send (new_events s1 s') = [SendRawTransaction tx]
     \<and> tx_to tx = Some a \<and> tx_data tx = Some c"
    by blast
  show "trace s' = trace s1 @ new_events s1 s'" by (rule t1'(2))
qed

text \<open>A transfer of a token given as a \<^verbatim>\<open>Token\<close> object: the amount sent is the
  requested amount, or the balance when the balance is lower.\<close>

lemma send_token_erc20_clamps:
  assumes "type_token t \<noteq> NATIVE" and "to_checksum w to_address = Inr dest"
    and "get_balance w (TokenObj t) None s = (Inr balance, s1)"
    and "send_token w to_address (AmountObj a) (TokenObj t) s = (Inr h, s')"
  shows "\<exists>tx. filter is_send (new_events s s') = [SendRawTransaction tx]
     \<and> tx_to tx = Some (token_address t)
     \<and> tx_data tx = Some (TransferCall dest (if wei balance < wei a then wei balance else wei a))"
proof -
  have run: "bind (bind (prepare_tx w None None)
             (build_transaction w (token_address t)
                (TransferCall dest (wei (if wei balance < wei a then balance else a)))))
       (\<lambda>tx. bind (estimate_gas w tx)
          (\<lambda>tx'. bind (sign_and_send w tx')
             (\<lambda>tx_hash. bind (logger INFO) (\<lambda>_. return tx_hash)))) s1 = (Inr h, s')"
    using send_token_erc20_run [OF assms(1-3)] assms(4) by simp
  note q0 = emitsD [OF emits_get_balance assms(3)]
  from transfer_sends_once [OF run] obtain tx where
    tx: "filter is_send (new_events s1 s') = [SendRawTransaction tx]"
      "tx_to tx = Some (token_address t)"
      "tx_data tx = Some (TransferCall dest (wei (if wei balance < wei a then balance else a)))"
    and t: "trace s' = trace s1 @ new_events s1 s'"
    by blast
  note t0 = new_events_trans [OF q0(1) t]
  have "filter is_send (new_events s s') = [SendRawTransaction tx]"
    using t0(1) q0(2) tx(1) by (simp add: quiet_no_send)
  moreover have "wei (if wei balance < wei a then balance else a)
      = (if wei balance < wei a then wei balance else wei a)"
    by simp
  ultimately show ?thesis using tx(2) tx(3) by auto
qed

text \<open>Sending all of a token given as a \<^verbatim>\<open>Token\<close> object: the balance is read, and
  read again before the transfer.\<close>

lemma send_all_erc20:
  assumes "type_token t \<noteq> NATIVE" and "to_checksum w to_address = Inr dest"
    and "get_balance w (TokenObj t) None s = (Inr balance, s1)"
  shows "send_token w to_address AmountNone (TokenObj t) s =
     send_token w to_address (AmountObj (Amount_wei (wei balance) (token_decimals t))) (TokenObj t) s1"
  using assms
  by (simp add: send_token_def resolve_token_def bind_run Let_def split: sum.splits prod.splits)

lemma send_all_of_token_address_never_returns:
  "fst (send_token w to_address AmountNone (TokenStr a) s) \<noteq> Inr tx_hash"
  by (simp add: send_token_def bind_run split: sum.splits prod.splits)

text \<open>
  Claim C8, at a token given by its contract address with no amount. \<^verbatim>\<open>send_token\<close>
  reads the balance and then \<^verbatim>\<open>token.decimals\<close>, while the token is still the
  address string: the call raises and nothing is sent. For a \<^verbatim>\<open>Token\<close> object the
  claim holds: see \<open>send_token_erc20_clamps\<close> and \<open>send_all_erc20\<close> above.
\<close>

theorem send_all_of_token_address_raises:
  "send_token world0 ''0xB0b'' AmountNone (TokenStr ''0xdAC17F958D2ee523a2206206994597C13D831ec7'')
     (state0 (Some False))
   = (Inl AttributeError,
      (state0 (Some False))\<lparr>trace :=
        [EthCall ''0xdAC17F958D2ee523a2206206994597C13D831ec7'' Decimals,
         EthCall ''0xdAC17F958D2ee523a2206206994597C13D831ec7'' Symbol,
         EthCall ''0xdAC17F958D2ee523a2206206994597C13D831ec7'' (BalanceOf ''0xA11ce'')]\<rparr>)"
  by (simp add: send_token_def get_balance_def resolve_token_def get_token_params_def
        Token_def bind_run Amount_wei_def Let_def native0_def)

section \<open>Failures in bulk revocation\<close>

lemma at_most_one_send_quiet: "emits quiet m \<Longrightarrow> at_most_one_send m"
  by (simp add: at_most_one_send_def emits_def quiet_no_send)

lemma at_most_one_sendD:
  assumes "at_most_one_send m" and "m s = (r, s')"
  shows "trace s' = trace s @ new_events s s'"
    and "length (filter is_send (new_events s s')) \<le> 1"
proof -
  have "trace (snd (m s)) = trace s @ new_events s (snd (m s))
     \<and> length (filter is_send (new_events s (snd (m s)))) \<le> 1"
    using assms(1) unfolding at_most_one_send_def by blast
  then show "trace s' = trace s @ new_events s s'"
    and "length (filter is_send (new_events s s')) \<le> 1"
    using assms(2) by simp_all
qed

lemma at_most_one_send_bind:
  assumes "emits quiet m" and "\<And>x. at_most_one_send (f x)"
  shows "at_most_one_send (bind m f)"
  unfolding at_most_one_send_def
proof
  fix s
  obtain r s1 where m: "m s = (r, s1)" by (cases "m s")
  note e1 = emitsD [OF assms(1) m]
  show "trace (snd (bind m f s)) = trace s @ new_events s (snd (bind m f s))
     \<and> length (filter is_send (new_events s (snd (bind m f s)))) \<le> 1"
  proof (cases r)
    case (Inl e)
    then show ?thesis using m e1 by (simp add: bind_run quiet_no_send)
  next
    case (Inr x)
    then have b: "bind m f s = f x s1" using m by (simp add: bind_run)
    obtain r2 s2 where f: "f x s1 = (r2, s2)" by (cases "f x s1")
    note e2 = at_most_one_sendD [OF assms(2) f]
    note t = new_events_trans [OF e1(1) e2(1)]
    show ?thesis
      unfolding b f using t e1(2) e2(2) by (simp add: quiet_no_send)
  qed
qed

lemma at_most_one_send_sign_and_send:
  "at_most_one_send (bind (sign_and_send w tx) (\<lambda>_. logger INFO))"
  by (auto simp: at_most_one_send_def sign_and_send_def bind_run new_events_def
        split: sum.splits)

lemma at_most_one_send_return [simp]: "at_most_one_send (return x)"
  by (simp add: at_most_one_send_quiet)

lemma at_most_one_send_raise [simp]: "at_most_one_send (raise e)"
  by (simp add: at_most_one_send_quiet)

lemma at_most_one_send_approve: "at_most_one_send (approve w tok amount_in spender)"
  unfolding approve_def
  by (auto intro!: at_most_one_send_bind emits_get_allowance emits_prepare_tx emits_get_fee
        emits_build_transaction emits_estimate_gas at_most_one_send_sign_and_send
        split: option.splits token_arg.splits)

lemma at_most_one_send_then_return:
  assumes "at_most_one_send m"
  shows "at_most_one_send (bind m (\<lambda>_. return y))"
  unfolding at_most_one_send_def
proof
  fix s
  obtain r s1 where a: "m s = (r, s1)" by (cases "m s")
  note e = at_most_one_sendD [OF assms a]
  show "trace (snd (bind m (\<lambda>_. return y) s)) = trace s @ new_events s (snd (bind m (\<lambda>_. return y) s))
      \<and> length (filter is_send (new_events s (snd (bind m (\<lambda>_. return y) s)))) \<le> 1"
    using a e by (cases r) (simp_all add: bind_run)
qed

lemma at_most_one_send_revoke_one: "at_most_one_send (revoke_one w pair tokens_cache)"
proof -
  obtain token_addr spender_addr where pair: "pair = (token_addr, spender_addr)"
    by (cases pair)
  have 1: "emits quiet (case tokens_cache token_addr of
                Some t \<Rightarrow> return (t, tokens_cache)
              | None \<Rightarrow>
                  bind (get_token_params w token_addr)
                    (\<lambda>(sy, d). bind (get self_chain)
                       (\<lambda>c. return (Token w sy token_addr c d,
                                 tokens_cache(token_addr \<mapsto> Token w sy token_addr c d)))))"
    by (auto intro!: emits_get_token_params split: option.splits)
  have 2: "at_most_one_send ((\<lambda>(t, cache'). bind (approve w (TokenObj t) (AmountNum (PyInt 0))
      (SpenderStr spender_addr)) (\<lambda>_. return cache')) x)" for x :: "token \<times> (address \<rightharpoonup> token)"
    by (cases x) (simp add: at_most_one_send_then_return at_most_one_send_approve)
  show ?thesis
    unfolding revoke_one_def pair prod.case Let_def
    by (rule at_most_one_send_bind [OF 1 2])
qed

lemma revoke_each_append:
  "revoke_each w (xs @ ys) tokens_cache s =
     (case revoke_each w xs tokens_cache s of
        (Inl e, s1) \<Rightarrow> (Inl e, s1)
      | (Inr cache1, s1) \<Rightarrow> revoke_each w ys cache1 s1)"
proof (induction xs arbitrary: tokens_cache s)
  case Nil
  then show ?case by simp
next
  case (Cons pair xs)
  show ?case
  proof (cases "revoke_one w pair tokens_cache s")
    case (Pair r s1)
    then show ?thesis using Cons.IH by (cases r) (simp_all add: bind_run)
  qed
qed

lemma approved_pairs_distinct:
  "approved_pairs logs approved = Inr ps \<Longrightarrow> distinct approved \<Longrightarrow> distinct ps"
  by (induction logs approved rule: approved_pairs.induct) (auto simp: Let_def split: if_splits)

lemma revoke_one_A:
  "revoke_one (revoke_world logs) (''0xAAAA'', ''0x5555555555555555555555555555555555555555'')
     Map.empty after_logs
   = (Inl (External ''execution reverted''),
      (state0 (Some False))\<lparr>trace := [EtherscanGetLogs, EthCall ''0xAAAA'' Decimals,
         EthCall ''0xAAAA'' Symbol,
         EthCall ''0xAAAA'' (Allowance ''0xA11ce'' ''0x5555555555555555555555555555555555555555'')]\<rparr>)"
  by (simp add: revoke_one_def get_token_params_def Token_def approve_def get_allowance_def
        spender_address_def bind_run Let_def after_logs_def)

lemma revoke_one_B:
  "revoke_one (revoke_world logs) (''0xBBBB'', ''0x5555555555555555555555555555555555555555'')
     Map.empty after_logs
   = (Inr [''0xBBBB'' \<mapsto> Token (revoke_world logs) ''0xhash'' ''0xBBBB'' chain0 10],
      (state0 (Some False))\<lparr>trace := [EtherscanGetLogs, EthCall ''0xBBBB'' Decimals,
         EthCall ''0xBBBB'' Symbol,
         EthCall ''0xBBBB'' (Allowance ''0xA11ce'' ''0x5555555555555555555555555555555555555555''),
         EthGasPrice, GetMultiplayer (Some (103 / 100, 11 / 10)),
         EthGetTransactionCount ''0xA11ce'', EthGasPrice,
         GetMultiplayer (Some (103 / 100, 11 / 10)),
         BuildTransaction ''0xBBBB'' (ApproveCall ''0x5555555555555555555555555555555555555555'' 0),
         EthEstimateGas revoke_tx, GetMultiplayer None,
         SignTransaction (revoke_tx\<lparr>tx_gas := Some 11\<rparr>),
         SendRawTransaction (revoke_tx\<lparr>tx_gas := Some 11\<rparr>),
         WaitForReceipt ''0xhash'', Log INFO]\<rparr>)"
  by (simp add: revoke_one_def get_token_params_def Token_def approve_def get_allowance_def
        spender_address_def prepare_tx_def get_fee_def build_transaction_def estimate_gas_def
        sign_and_send_def bind_run py_int_def Let_def after_logs_def revoke_tx_def)

lemma approved_pairs_logs:
  "approved_pairs [log_A, log_B] [] =
     Inr [(''0xAAAA'', ''0x5555555555555555555555555555555555555555''),
          (''0xBBBB'', ''0x5555555555555555555555555555555555555555'')]"
  "approved_pairs [log_B, log_B, log_B] [] =
     Inr [(''0xBBBB'', ''0x5555555555555555555555555555555555555555'')]"
  "approved_pairs [log_B] [] =
     Inr [(''0xBBBB'', ''0x5555555555555555555555555555555555555555'')]"
  by (simp_all add: log_A_def log_B_def spender_topic_def Let_def)




end
